theory Spec2Isabelle
  imports Main "HOL-Library.Char_ord" "HOL-Library.List_Lexorder" "HOL-Library.Sublist"
begin

section \<open>The report generator of the e-commerce dashboard\<close>

text \<open>
  A shallow embedding of \<^verbatim>\<open>src/reports/report_generator.py\<close>: the class
  \<^verbatim>\<open>ReportGenerator\<close> with its constructor, \<^verbatim>\<open>save_figure_as_image\<close>,
  \<^verbatim>\<open>save_current_figures\<close>, \<^verbatim>\<open>generate_pdf\<close> and \<^verbatim>\<open>generate_word\<close>.

  What the libraries do is written out as far as the report depends on it:
  \<^item> the file system is a map from path to file content (directories are not modelled,
    so \<^verbatim>\<open>os.makedirs\<close> of the constructor has no counterpart, and writing a file
    never fails);
  \<^item> the clock reading \<^verbatim>\<open>datetime.now()\<close> of a call is an argument of that call;
  \<^item> a plotly figure is its title and what \<^verbatim>\<open>write_image\<close> produces for it
    (\<open>None\<close>: the export raises); the \<^verbatim>\<open>figures\<close> dictionary is the list of its
    items in iteration order, each name once;
  \<^item> a float64 that went through \<^verbatim>\<open>round(2)\<close> is the integer number of its
    hundredths when it is finite and below \<open>10^13\<close> in magnitude, NaN, or another
    float (an infinity, the negative zero, a larger value) that comes with the text
    \<^verbatim>\<open>str\<close> gives for it; \<^verbatim>\<open>mean().round(2)\<close> of pandas over the values
    present in a group is a parameter \<open>mean_round2\<close> of the constructor;
  \<^item> a cell of the dataset may be missing (\<open>None\<close>), as after \<^verbatim>\<open>read_csv\<close>;
  \<^item> a reportlab story is the list of its flowables, a python-docx document the list
    of its body blocks; table and paragraph styles are kept as names.
\<close>

subsection \<open>Python's number formatting\<close>

definition digit_char :: "nat \<Rightarrow> char" where
  "digit_char d = ''0123456789'' ! (d mod 10)"

text \<open>\<^verbatim>\<open>str(n)\<close> for a natural number.\<close>

fun py_str_nat :: "nat \<Rightarrow> string" where
  "py_str_nat n = (if n < 10 then [digit_char n] else py_str_nat (n div 10) @ [digit_char (n mod 10)])"

declare py_str_nat.simps [simp del]

definition py_str_int :: "int \<Rightarrow> string" where
  "py_str_int i = (if i < 0 then ''-'' @ py_str_nat (nat (- i)) else py_str_nat (nat i))"

text \<open>
  \<^verbatim>\<open>str(x)\<close> for a float64 \<open>x\<close> that is the double nearest to \<open>h / 100\<close>, for
  \<open>\<bar>h\<bar> < 10^15\<close>: the shortest decimal that reads back as \<open>x\<close>, which is
  \<open>h / 100\<close> written with one or two decimals.
\<close>

definition decimal_text :: "int \<Rightarrow> string" where
  "decimal_text h =
     (let a = nat \<bar>h\<bar>; frac = a mod 100 in
      (if h < 0 then ''-'' else '''') @ py_str_nat (a div 100) @ ''.'' @
      (if frac mod 10 = 0 then [digit_char (frac div 10)]
       else [digit_char (frac div 10), digit_char (frac mod 10)]))"

definition pad3 :: "nat \<Rightarrow> string" where
  "pad3 n = [digit_char (n div 100), digit_char (n div 10), digit_char n]"

text \<open>The format \<^verbatim>\<open>f"{n:,}"\<close> of a natural number.\<close>

fun py_format_commas :: "nat \<Rightarrow> string" where
  "py_format_commas n =
     (if n < 1000 then py_str_nat n else py_format_commas (n div 1000) @ '','' @ pad3 (n mod 1000))"

declare py_format_commas.simps [simp del]

subsection \<open>The clock\<close>

record datetime =
  year :: nat
  month :: nat
  day :: nat
  hour :: nat
  minute :: nat
  second :: nat

definition pad2 :: "nat \<Rightarrow> string" where
  "pad2 n = [digit_char (n div 10), digit_char n]"

definition pad4 :: "nat \<Rightarrow> string" where
  "pad4 n = [digit_char (n div 1000), digit_char (n div 100), digit_char (n div 10), digit_char n]"

text \<open>\<^verbatim>\<open>strftime("%Y%m%d_%H%M%S")\<close>, for the years 1000 to 9999.\<close>

definition strftime :: "datetime \<Rightarrow> string" where
  "strftime t =
     pad4 (year t) @ pad2 (month t) @ pad2 (day t) @ ''_'' @
     pad2 (hour t) @ pad2 (minute t) @ pad2 (second t)"

subsection \<open>Data frames\<close>

text \<open>
  A float64 that went through \<^verbatim>\<open>round(2)\<close>: \<open>Hundredths h\<close>, for
  \<open>\<bar>h\<bar> < 10^15\<close>, is the double nearest to \<open>h / 100\<close> (the zero being the
  positive one); \<open>NaN\<close> is the missing value; \<open>OtherFloat s\<close> is any other float
  (an infinity, the negative zero, a value of magnitude \<open>10^13\<close> or more), with the
  text \<open>s\<close> that \<^verbatim>\<open>str\<close> gives for it.
\<close>

datatype float64 = Hundredths int | NaN | OtherFloat string

fun py_str_float :: "float64 \<Rightarrow> string" where
  "py_str_float (Hundredths h) = decimal_text h"
| "py_str_float NaN = ''nan''"
| "py_str_float (OtherFloat s) = s"

text \<open>
  A cell of a data frame is an int64 or a float64. A frame is its column labels and its
  rows, each row with its index label.
\<close>

datatype scalar = PyInt int | PyFloat float64

record frame =
  columns :: "string list"
  rows :: "(string \<times> scalar list) list"

definition index :: "frame \<Rightarrow> string list" where
  "index fr = map fst (rows fr)"

datatype error = RenderingError | IOError | IndexError | KeyError

fun is_float :: "scalar \<Rightarrow> bool" where
  "is_float (PyFloat x) = True"
| "is_float (PyInt i) = False"

fun to_float :: "scalar \<Rightarrow> scalar" where
  "to_float (PyFloat x) = PyFloat x"
| "to_float (PyInt i) = PyFloat (Hundredths (100 * i))"

text \<open>
  A row taken out of a frame is a Series with one dtype for all its values: when the
  columns mix int64 and float64, the integers become floats.
\<close>

definition upcast :: "scalar list \<Rightarrow> scalar list" where
  "upcast vs = (if \<exists>v \<in> set vs. is_float v then map to_float vs else vs)"

text \<open>\<^verbatim>\<open>fr.loc[label]\<close>: the row as a Series, column label to value.\<close>

definition loc :: "frame \<Rightarrow> string \<Rightarrow> error + (string \<times> scalar) list" where
  "loc fr label =
     (case map_of (rows fr) label of
        None \<Rightarrow> Inl KeyError
      | Some vs \<Rightarrow> Inr (zip (columns fr) (upcast vs)))"

text \<open>\<^verbatim>\<open>series[col]\<close>.\<close>

definition getitem :: "(string \<times> scalar) list \<Rightarrow> string \<Rightarrow> error + scalar" where
  "getitem series col = (case map_of series col of None \<Rightarrow> Inl KeyError | Some v \<Rightarrow> Inr v)"

text \<open>\<^verbatim>\<open>str(v)\<close> of a numpy scalar.\<close>

fun py_str :: "scalar \<Rightarrow> string" where
  "py_str (PyInt i) = py_str_int i"
| "py_str (PyFloat x) = py_str_float x"

text \<open>\<^verbatim>\<open>str(fr.loc[label][col])\<close>.\<close>

definition cell_text :: "frame \<Rightarrow> string \<Rightarrow> string \<Rightarrow> error + string" where
  "cell_text fr label col =
     (case loc fr label of
        Inl e \<Rightarrow> Inl e
      | Inr series \<Rightarrow> (case getitem series col of Inl e \<Rightarrow> Inl e | Inr v \<Rightarrow> Inr (py_str v)))"


subsection \<open>The dataset and the generator\<close>

text \<open>
  One order of the dataset, with the columns the report reads. \<open>'v\<close> is the type of
  the numeric columns. A cell that is missing is \<open>None\<close>.
\<close>

record 'v order =
  order_id :: "string option"
  platform :: "string option"
  product_category :: "string option"
  order_value :: "'v option"
  delivery_time :: "'v option"

text \<open>
  The group keys of \<^verbatim>\<open>groupby\<close>: each key that is present once, sorted; the rows
  with a missing key are in no group.
\<close>

definition groupby_keys :: "('a \<Rightarrow> string option) \<Rightarrow> 'a list \<Rightarrow> string list" where
  "groupby_keys key d = sort (remdups (List.map_filter key d))"

text \<open>
  The aggregations of one column of a group: \<^verbatim>\<open>count\<close> counts the cells that are
  present; \<^verbatim>\<open>mean\<close> is taken over the cells that are present and is NaN when there
  is none.
\<close>

definition agg_count :: "'a option list \<Rightarrow> nat" where
  "agg_count col = length (filter (\<lambda>x. x \<noteq> None) col)"

definition agg_mean :: "('v list \<Rightarrow> float64) \<Rightarrow> 'v option list \<Rightarrow> float64" where
  "agg_mean mean_round2 col =
     (let present = List.map_filter (\<lambda>x. x) col in
      if present = [] then NaN else mean_round2 present)"

record 'v ReportGenerator =
  df :: "'v order list"
  platform_stats :: frame
  category_stats :: frame
  image_paths :: "string list"

text \<open>
  \<^verbatim>\<open>__init__\<close>. \<open>mean_round2 xs\<close> is the mean of the column values \<open>xs\<close> present
  in one group, rounded to two decimals: \<open>Hundredths h\<close> when it is finite and below
  \<open>10^13\<close> in magnitude, another float otherwise. The count of the order ids is the
  number of ids present in the group. \<^verbatim>\<open>self.image_paths\<close> does not exist
  before the first \<^verbatim>\<open>save_current_figures\<close> and is never read before; it starts
  as the empty list here.
\<close>

definition ReportGenerator_init ::
  "('v list \<Rightarrow> float64) \<Rightarrow> 'v order list \<Rightarrow> 'v ReportGenerator" where
  "ReportGenerator_init mean_round2 d =
     \<lparr> df = d,
       platform_stats =
         \<lparr> columns = [''Avg Order Value'', ''Avg Delivery Time'', ''Total Orders''],
           rows = map (\<lambda>k. let g = filter (\<lambda>r. platform r = Some k) d in
                        (k, [PyFloat (agg_mean mean_round2 (map order_value g)),
                             PyFloat (agg_mean mean_round2 (map delivery_time g)),
                             PyInt (int (agg_count (map order_id g)))]))
                      (groupby_keys platform d) \<rparr>,
       category_stats =
         \<lparr> columns = [''mean'', ''count''],
           rows = map (\<lambda>k. let g = filter (\<lambda>r. product_category r = Some k) d in
                        (k, [PyFloat (agg_mean mean_round2 (map delivery_time g)),
                             PyInt (int (agg_count (map delivery_time g)))]))
                      (groupby_keys product_category d) \<rparr>,
       image_paths = [] \<rparr>"

subsection \<open>Figures, files and documents\<close>

record figure =
  fig_title :: string
  fig_png :: "string option"

datatype para_style = CustomTitle | Author | Heading2

datatype table_style = OverviewTableStyle | PlatformTableStyle

text \<open>The flowables of reportlab that the story holds.\<close>

datatype flowable =
    Paragraph string para_style
  | Spacer nat nat
  | Table "string list list" table_style
  | ImageF string nat nat

text \<open>
  The body blocks of a python-docx document: a heading with its level, a paragraph with
  its alignment and style, a table with its style, a picture with its width in inches.
\<close>

datatype docx_block =
    Heading string nat
  | DocxParagraph string "nat option" string
  | DocxTable "string list list" string
  | Picture string nat

text \<open>
  A file is a PNG image, a PDF (the story and the image data embedded for its images, in
  order) or a Word document (the body and the image data of its pictures, in order).
\<close>

datatype content =
    PngFile string
  | PdfFile "flowable list" "string list"
  | DocxFile "docx_block list" "string list"

type_synonym fs = "string \<rightharpoonup> content"

text \<open>\<^verbatim>\<open>os.path.join(a, b)\<close> on POSIX.\<close>

definition path_join :: "string \<Rightarrow> string \<Rightarrow> string" where
  "path_join a b =
     (if b \<noteq> [] \<and> hd b = CHR ''/'' then b
      else if a = [] \<or> last a = CHR ''/'' then a @ b
      else a @ ''/'' @ b)"

definition save_figure_as_image :: "figure \<Rightarrow> string \<Rightarrow> fs \<Rightarrow> (error + string) \<times> fs" where
  "save_figure_as_image fig filename files =
     (let temp_path = path_join ''output/temp'' filename in
      case fig_png fig of
        None \<Rightarrow> (Inl RenderingError, files)
      | Some img \<Rightarrow> (Inr temp_path, files(temp_path \<mapsto> PngFile img)))"

text \<open>The loop of \<^verbatim>\<open>save_current_figures\<close>; an exception leaves it at once.\<close>

fun save_figures_loop ::
  "(string \<times> figure) list \<Rightarrow> 'v ReportGenerator \<Rightarrow> fs \<Rightarrow> (error + unit) \<times> 'v ReportGenerator \<times> fs" where
  "save_figures_loop [] self files = (Inr (), self, files)"
| "save_figures_loop ((name, fig) # rest) self files =
     (case save_figure_as_image fig (name @ ''.png'') files of
        (Inl e, files') \<Rightarrow> (Inl e, self, files')
      | (Inr img_path, files') \<Rightarrow>
          save_figures_loop rest (self\<lparr>image_paths := image_paths self @ [img_path]\<rparr>) files')"

definition save_current_figures ::
  "(string \<times> figure) list \<Rightarrow> 'v ReportGenerator \<Rightarrow> fs \<Rightarrow> (error + unit) \<times> 'v ReportGenerator \<times> fs" where
  "save_current_figures figures self files =
     save_figures_loop figures (self\<lparr>image_paths := []\<rparr>) files"

subsection \<open>The PDF report\<close>

text \<open>
  The list comprehension \<^verbatim>\<open>[str(self.platform_stats.loc[platform][col]) for col in
  self.platform_stats.columns]\<close>.
\<close>

fun row_texts :: "frame \<Rightarrow> string \<Rightarrow> string list \<Rightarrow> error + string list" where
  "row_texts fr label [] = Inr []"
| "row_texts fr label (col # cols) =
     (case cell_text fr label col of
        Inl e \<Rightarrow> Inl e
      | Inr t \<Rightarrow> (case row_texts fr label cols of Inl e \<Rightarrow> Inl e | Inr ts \<Rightarrow> Inr (t # ts)))"

text \<open>The loop over \<^verbatim>\<open>self.platform_stats.index\<close> that appends one row per platform.\<close>

fun platform_rows :: "frame \<Rightarrow> string list \<Rightarrow> error + string list list" where
  "platform_rows fr [] = Inr []"
| "platform_rows fr (p # ps) =
     (case row_texts fr p (columns fr) of
        Inl e \<Rightarrow> Inl e
      | Inr ts \<Rightarrow> (case platform_rows fr ps of Inl e \<Rightarrow> Inl e | Inr rs \<Rightarrow> Inr ((p # ts) # rs)))"

definition platform_data :: "frame \<Rightarrow> error + string list list" where
  "platform_data fr =
     (case platform_rows fr (index fr) of
        Inl e \<Rightarrow> Inl e
      | Inr rs \<Rightarrow> Inr ((''Platform'' # columns fr) # rs))"

definition overview_data :: "'v ReportGenerator \<Rightarrow> string list list" where
  "overview_data self =
     [[''Total Orders'', py_format_commas (length (df self))],
      [''Number of Platforms'', py_str_nat (length (remdups (map platform (df self))))],
      [''Number of Product Categories'',
       py_str_nat (length (remdups (map product_category (df self))))]]"

fun image_sources :: "flowable list \<Rightarrow> string list" where
  "image_sources [] = []"
| "image_sources (ImageF p w h # bs) = p # image_sources bs"
| "image_sources (b # bs) = image_sources bs"

fun read_images :: "fs \<Rightarrow> string list \<Rightarrow> error + string list" where
  "read_images files [] = Inr []"
| "read_images files (p # ps) =
     (case files p of
        Some (PngFile img) \<Rightarrow>
          (case read_images files ps of Inl e \<Rightarrow> Inl e | Inr imgs \<Rightarrow> Inr (img # imgs))
      | _ \<Rightarrow> Inl IOError)"

text \<open>
  \<^verbatim>\<open>doc.build(story)\<close>: reportlab opens the image files when it lays the story out,
  then writes the document.
\<close>

definition doc_build :: "string \<Rightarrow> flowable list \<Rightarrow> fs \<Rightarrow> error + fs" where
  "doc_build filename story files =
     (case read_images files (image_sources story) of
        Inl e \<Rightarrow> Inl e
      | Inr imgs \<Rightarrow> Inr (files(filename \<mapsto> PdfFile story imgs)))"

text \<open>
  The loop over \<^verbatim>\<open>self.image_paths\<close>: an image of 450 by 300, then a spacer.
\<close>

fun image_flowables :: "string list \<Rightarrow> flowable list" where
  "image_flowables [] = []"
| "image_flowables (img_path # rest) =
     ImageF img_path 450 300 # Spacer 1 20 # image_flowables rest"

definition pdf_filename :: "datetime \<Rightarrow> string" where
  "pdf_filename now = ''output/reports/ecommerce_analysis_report_'' @ strftime now @ ''.pdf''"

text \<open>
  The story of \<^verbatim>\<open>generate_pdf\<close>, in the order of its \<^verbatim>\<open>story.append\<close> calls;
  \<open>pd\<close> is the value of \<^verbatim>\<open>platform_data\<close>.
\<close>

definition pdf_story :: "'v ReportGenerator \<Rightarrow> string list list \<Rightarrow> flowable list" where
  "pdf_story self pd =
     [Paragraph ''E-commerce Delivery Analytics Report'' CustomTitle,
      Paragraph ''Created by: Vijeta Thakur'' Author,
      Spacer 1 12,
      Paragraph ''Dataset Overview'' Heading2,
      Table (overview_data self) OverviewTableStyle,
      Spacer 1 20,
      Paragraph ''Platform Performance Metrics'' Heading2,
      Table pd PlatformTableStyle,
      Spacer 1 20,
      Paragraph ''Visualizations'' Heading2] @
     image_flowables (image_paths self)"

text \<open>
  \<^verbatim>\<open>generate_pdf\<close>: the result (the file name, or the exception raised), the generator
  and the file system after the call.
\<close>

definition generate_pdf ::
  "datetime \<Rightarrow> (string \<times> figure) list \<Rightarrow> 'v ReportGenerator \<Rightarrow> fs \<Rightarrow>
     (error + string) \<times> 'v ReportGenerator \<times> fs" where
  "generate_pdf now figures self0 files0 =
     (case save_current_figures figures self0 files0 of
        (Inl e, self, files) \<Rightarrow> (Inl e, self, files)
      | (Inr u, self, files) \<Rightarrow>
          (let filename = pdf_filename now in
           case platform_data (platform_stats self) of
             Inl e \<Rightarrow> (Inl e, self, files)
           | Inr pd \<Rightarrow>
               (case doc_build filename (pdf_story self pd) files of
                  Inl e \<Rightarrow> (Inl e, self, files)
                | Inr files' \<Rightarrow> (Inr filename, self, files'))))"

subsection \<open>The Word report\<close>

text \<open>\<^verbatim>\<open>cells[idx].text = v\<close>; an index outside the row raises.\<close>

definition set_cell :: "string list \<Rightarrow> nat \<Rightarrow> string \<Rightarrow> error + string list" where
  "set_cell cells idx v = (if idx < length cells then Inr (cells[idx := v]) else Inl IndexError)"

text \<open>\<^verbatim>\<open>for idx, col in enumerate(columns, 1): header_cells[idx].text = col\<close>.\<close>

fun header_loop :: "string list \<Rightarrow> nat \<Rightarrow> string list \<Rightarrow> error + string list" where
  "header_loop cells idx [] = Inr cells"
| "header_loop cells idx (col # cols) =
     (case set_cell cells idx col of
        Inl e \<Rightarrow> Inl e
      | Inr cells' \<Rightarrow> header_loop cells' (Suc idx) cols)"

text \<open>
  \<^verbatim>\<open>for idx, col in enumerate(columns, 1): row_cells[idx].text = str(...)\<close>; the right
  side is evaluated before the cell is looked up.
\<close>

fun data_cells_loop ::
  "frame \<Rightarrow> string \<Rightarrow> string list \<Rightarrow> nat \<Rightarrow> string list \<Rightarrow> error + string list" where
  "data_cells_loop fr label cells idx [] = Inr cells"
| "data_cells_loop fr label cells idx (col # cols) =
     (case cell_text fr label col of
        Inl e \<Rightarrow> Inl e
      | Inr t \<Rightarrow>
          (case set_cell cells idx t of
             Inl e \<Rightarrow> Inl e
           | Inr cells' \<Rightarrow> data_cells_loop fr label cells' (Suc idx) cols))"

text \<open>
  The loop over the index: \<^verbatim>\<open>add_row\<close> appends a row of four empty cells, which is
  then filled. The table is the rows so far.
\<close>

fun data_rows_loop :: "frame \<Rightarrow> string list list \<Rightarrow> string list \<Rightarrow> error + string list list" where
  "data_rows_loop fr table [] = Inr table"
| "data_rows_loop fr table (p # ps) =
     (case set_cell (replicate 4 []) 0 p of
        Inl e \<Rightarrow> Inl e
      | Inr cells \<Rightarrow>
          (case data_cells_loop fr p cells 1 (columns fr) of
             Inl e \<Rightarrow> Inl e
           | Inr cells' \<Rightarrow> data_rows_loop fr (table @ [cells']) ps))"

definition platform_table :: "frame \<Rightarrow> error + string list list" where
  "platform_table fr =
     (case set_cell (replicate 4 []) 0 ''Platform'' of
        Inl e \<Rightarrow> Inl e
      | Inr cells \<Rightarrow>
          (case header_loop cells 1 (columns fr) of
             Inl e \<Rightarrow> Inl e
           | Inr header_cells \<Rightarrow> data_rows_loop fr [header_cells] (index fr)))"

definition overview_table :: "'v ReportGenerator \<Rightarrow> string list list" where
  "overview_table self =
     [[''Metric'', ''Value''],
      [''Total Orders'', py_format_commas (length (df self))],
      [''Number of Platforms'', py_str_nat (length (remdups (map platform (df self))))],
      [''Number of Product Categories'',
       py_str_nat (length (remdups (map product_category (df self))))]]"

text \<open>
  The loop over \<^verbatim>\<open>self.image_paths\<close>: \<^verbatim>\<open>add_picture\<close> reads the image file, then
  an empty paragraph follows. The result is the blocks and the image data.
\<close>

fun add_pictures :: "fs \<Rightarrow> string list \<Rightarrow> error + docx_block list \<times> string list" where
  "add_pictures files [] = Inr ([], [])"
| "add_pictures files (p # ps) =
     (case files p of
        Some (PngFile img) \<Rightarrow>
          (case add_pictures files ps of
             Inl e \<Rightarrow> Inl e
           | Inr (bs, imgs) \<Rightarrow> Inr (Picture p 6 # DocxParagraph [] None ''Normal'' # bs, img # imgs))
      | _ \<Rightarrow> Inl IOError)"

definition word_filename :: "datetime \<Rightarrow> string" where
  "word_filename now = ''output/reports/ecommerce_analysis_report_'' @ strftime now @ ''.docx''"

text \<open>
  The body of \<^verbatim>\<open>generate_word\<close>, in the order of its \<^verbatim>\<open>doc.add_...\<close> calls;
  \<open>pt\<close> is the filled platform table, \<open>pics\<close> the blocks of the picture loop.
\<close>

definition word_body ::
  "'v ReportGenerator \<Rightarrow> string list list \<Rightarrow> docx_block list \<Rightarrow> docx_block list" where
  "word_body self pt pics =
     [Heading ''E-commerce Delivery Analytics Report'' 0,
      DocxParagraph ''Created by: Vijeta Thakur'' (Some 1) ''Subtitle'',
      Heading ''Dataset Overview'' 1,
      DocxTable (overview_table self) ''Table Grid'',
      DocxParagraph [] None ''Normal'',
      Heading ''Platform Performance Metrics'' 1,
      DocxTable pt ''Table Grid'',
      DocxParagraph [] None ''Normal'',
      Heading ''Visualizations'' 1] @ pics"

definition generate_word ::
  "datetime \<Rightarrow> (string \<times> figure) list \<Rightarrow> 'v ReportGenerator \<Rightarrow> fs \<Rightarrow>
     (error + string) \<times> 'v ReportGenerator \<times> fs" where
  "generate_word now figures self0 files0 =
     (case save_current_figures figures self0 files0 of
        (Inl e, self, files) \<Rightarrow> (Inl e, self, files)
      | (Inr u, self, files) \<Rightarrow>
          (let filename = word_filename now in
           case platform_table (platform_stats self) of
             Inl e \<Rightarrow> (Inl e, self, files)
           | Inr pt \<Rightarrow>
               (case add_pictures files (image_paths self) of
                  Inl e \<Rightarrow> (Inl e, self, files)
                | Inr (pics, imgs) \<Rightarrow>
                    (Inr filename, self,
                     files(filename \<mapsto> DocxFile (word_body self pt pics) imgs)))))"

subsection \<open>Reading a call's result and a document\<close>

definition outcome :: "'a \<times> 'b \<times> 'c \<Rightarrow> 'a" where
  "outcome r = fst r"

definition self_after :: "'a \<times> 'b \<times> 'c \<Rightarrow> 'b" where
  "self_after r = fst (snd r)"

definition files_after :: "'a \<times> 'b \<times> 'c \<Rightarrow> 'c" where
  "files_after r = snd (snd r)"

text \<open>
  The section headings of a document: in the PDF the paragraphs in the title style and
  in the style \<^verbatim>\<open>Heading2\<close>, in the Word document the headings.
\<close>

fun pdf_heading :: "flowable \<Rightarrow> string option" where
  "pdf_heading (Paragraph t CustomTitle) = Some t"
| "pdf_heading (Paragraph t Heading2) = Some t"
| "pdf_heading b = None"

fun docx_heading :: "docx_block \<Rightarrow> string option" where
  "docx_heading (Heading t level) = Some t"
| "docx_heading b = None"

text \<open>A document as its sections: each heading with the blocks up to the next heading.\<close>

fun split_sections :: "('b \<Rightarrow> string option) \<Rightarrow> 'b list \<Rightarrow> (string \<times> 'b list) list" where
  "split_sections h [] = []"
| "split_sections h (b # bs) =
     (case h b of
        Some t \<Rightarrow> (t, takeWhile (\<lambda>x. h x = None) bs) # split_sections h bs
      | None \<Rightarrow> split_sections h bs)"

definition pdf_sections :: "flowable list \<Rightarrow> (string \<times> flowable list) list" where
  "pdf_sections story = split_sections pdf_heading story"

definition docx_sections :: "docx_block list \<Rightarrow> (string \<times> docx_block list) list" where
  "docx_sections body = split_sections docx_heading body"

definition section_body :: "string \<Rightarrow> (string \<times> 'b list) list \<Rightarrow> 'b list" where
  "section_body t secs = (case map_of secs t of Some blocks \<Rightarrow> blocks | None \<Rightarrow> [])"

definition pdf_section :: "string \<Rightarrow> flowable list \<Rightarrow> flowable list" where
  "pdf_section t story = section_body t (pdf_sections story)"

definition docx_section :: "string \<Rightarrow> docx_block list \<Rightarrow> docx_block list" where
  "docx_section t body = section_body t (docx_sections body)"

text \<open>
  The story of the PDF at a path, the body of the Word document at a path (empty when
  there is no such document), and the image data embedded in the document at a path.
\<close>

definition pdf_at :: "fs \<Rightarrow> string \<Rightarrow> flowable list" where
  "pdf_at files p = (case files p of Some (PdfFile story imgs) \<Rightarrow> story | _ \<Rightarrow> [])"

definition docx_at :: "fs \<Rightarrow> string \<Rightarrow> docx_block list" where
  "docx_at files p = (case files p of Some (DocxFile body imgs) \<Rightarrow> body | _ \<Rightarrow> [])"

definition images_at :: "fs \<Rightarrow> string \<Rightarrow> string list" where
  "images_at files p =
     (case files p of
        Some (PdfFile story imgs) \<Rightarrow> imgs
      | Some (DocxFile body imgs) \<Rightarrow> imgs
      | _ \<Rightarrow> [])"

fun pdf_tables :: "flowable list \<Rightarrow> string list list list" where
  "pdf_tables [] = []"
| "pdf_tables (Table cells sty # bs) = cells # pdf_tables bs"
| "pdf_tables (b # bs) = pdf_tables bs"

fun docx_tables :: "docx_block list \<Rightarrow> string list list list" where
  "docx_tables [] = []"
| "docx_tables (DocxTable cells sty # bs) = cells # docx_tables bs"
| "docx_tables (b # bs) = docx_tables bs"

fun docx_pictures :: "docx_block list \<Rightarrow> string list" where
  "docx_pictures [] = []"
| "docx_pictures (Picture p w # bs) = p # docx_pictures bs"
| "docx_pictures (b # bs) = docx_pictures bs"

subsection \<open>Closed forms used in the proofs\<close>

text \<open>
  A frame as pandas has it after \<^verbatim>\<open>groupby\<close>: the index labels are distinct, the
  column labels are distinct, and every row has one value per column.
\<close>

definition wf_frame :: "frame \<Rightarrow> bool" where
  "wf_frame fr \<longleftrightarrow>
     distinct (index fr) \<and> distinct (columns fr) \<and>
     list_all (\<lambda>r. length (snd r) = length (columns fr)) (rows fr)"

text \<open>
  The statistics of a generator are ready when the platform frame is well formed and has
  the three metric columns the constructor gives it.
\<close>

definition stats_ready :: "'v ReportGenerator \<Rightarrow> bool" where
  "stats_ready self \<longleftrightarrow>
     wf_frame (platform_stats self) \<and> length (columns (platform_stats self)) = 3"

text \<open>The cells of the table row of one frame row.\<close>

definition row_cells :: "string \<times> scalar list \<Rightarrow> string list" where
  "row_cells r = fst r # map py_str (upcast (snd r))"

text \<open>The path of the temporary image of the figure called \<open>name\<close>.\<close>

definition image_path :: "string \<Rightarrow> string" where
  "image_path name = path_join ''output/temp'' (name @ ''.png'')"

definition renders :: "string \<times> figure \<Rightarrow> bool" where
  "renders nf = (fig_png (snd nf) \<noteq> None)"

text \<open>The file system after the images of the figures have been written, in order.\<close>

fun write_images :: "(string \<times> figure) list \<Rightarrow> fs \<Rightarrow> fs" where
  "write_images [] files = files"
| "write_images ((name, fig) # rest) files =
     write_images rest (files(image_path name \<mapsto> PngFile (the (fig_png fig))))"

fun picture_blocks :: "string list \<Rightarrow> docx_block list" where
  "picture_blocks [] = []"
| "picture_blocks (p # ps) = Picture p 6 # DocxParagraph [] None ''Normal'' # picture_blocks ps"

definition png_at :: "fs \<Rightarrow> string \<Rightarrow> string" where
  "png_at files p = (case files p of Some (PngFile img) \<Rightarrow> img | _ \<Rightarrow> [])"

subsection \<open>A small dataset\<close>

text \<open>
  Order values and delivery times in hundredths, none missing; the mean of a group is
  exact here, so \<open>demo_mean\<close> is what \<^verbatim>\<open>mean().round(2)\<close> gives on these numbers.
\<close>

definition demo_mean :: "int list \<Rightarrow> float64" where
  "demo_mean xs = Hundredths (sum_list xs div int (length xs))"

definition demo_orders :: "int order list" where
  "demo_orders =
     [\<lparr>order_id = Some ''ORD001'', platform = Some ''Zepto'',
       product_category = Some ''Snacks'',
       order_value = Some 120000, delivery_time = Some 3000\<rparr>,
      \<lparr>order_id = Some ''ORD002'', platform = Some ''Swiggy'',
       product_category = Some ''Dairy'',
       order_value = Some 9550, delivery_time = Some 2500\<rparr>,
      \<lparr>order_id = Some ''ORD003'', platform = Some ''Zepto'',
       product_category = Some ''Dairy'',
       order_value = Some 126900, delivery_time = Some 3100\<rparr>]"

definition demo_generator :: "int ReportGenerator" where
  "demo_generator = ReportGenerator_init demo_mean demo_orders"

definition demo_now :: datetime where
  "demo_now = \<lparr>year = 2025, month = 3, day = 9, hour = 14, minute = 5, second = 59\<rparr>"

definition demo_figures :: "(string \<times> figure) list" where
  "demo_figures =
     [(''scatter_plot'', \<lparr>fig_title = ''Order Value vs Delivery Time'', fig_png = Some ''PNG-1''\<rparr>),
      (''boxplot'', \<lparr>fig_title = ''Delivery Time by Platform'', fig_png = Some ''PNG-2''\<rparr>)]"

definition other_figures :: "(string \<times> figure) list" where
  "other_figures =
     [(''category_times'', \<lparr>fig_title = ''Delivery Time by Category'', fig_png = Some ''PNG-3''\<rparr>)]"

definition broken_figures :: "(string \<times> figure) list" where
  "broken_figures =
     [(''scatter_plot'', \<lparr>fig_title = ''Order Value vs Delivery Time'', fig_png = Some ''PNG-1''\<rparr>),
      (''boxplot'', \<lparr>fig_title = ''Delivery Time by Platform'', fig_png = None\<rparr>)]"

definition later_now :: datetime where
  "later_now = \<lparr>year = 2025, month = 3, day = 9, hour = 14, minute = 6, second = 0\<rparr>"

text \<open>
  Calls on one instance, one after the other: a first PDF, then in the same second a PDF
  of other figures; or, after the first PDF, in the same second the same PDF again.
\<close>

definition first_call :: "(error + string) \<times> int ReportGenerator \<times> fs" where
  "first_call = generate_pdf demo_now demo_figures demo_generator Map.empty"

definition second_call :: "(error + string) \<times> int ReportGenerator \<times> fs" where
  "second_call =
     generate_pdf demo_now other_figures (self_after first_call) (files_after first_call)"

definition repeated_call :: "(error + string) \<times> int ReportGenerator \<times> fs" where
  "repeated_call =
     generate_pdf demo_now demo_figures (self_after first_call) (files_after first_call)"

section \<open>Lemmas\<close>

subsection \<open>The platform table of a well-formed frame\<close>

lemma length_upcast [simp]: "length (upcast vs) = length vs"
  by (simp add: upcast_def)

lemma map_lookup_zip:
  assumes "distinct cs" "length cs = length ws"
  shows "map (\<lambda>c. the (map_of (zip cs ws) c)) cs = ws"
proof (rule nth_equalityI)
  show "length (map (\<lambda>c. the (map_of (zip cs ws) c)) cs) = length ws"
    using assms by simp
next
  fix i assume "i < length (map (\<lambda>c. the (map_of (zip cs ws) c)) cs)"
  then have i: "i < length ws" using assms by simp
  then show "map (\<lambda>c. the (map_of (zip cs ws) c)) cs ! i = ws ! i"
    using assms map_of_zip_nth [of cs ws i] by simp
qed

lemma cell_text_closed:
  assumes "map_of (rows fr) label = Some vs" "length vs = length (columns fr)"
    and "c \<in> set (columns fr)"
  shows "cell_text fr label c = Inr (py_str (the (map_of (zip (columns fr) (upcast vs)) c)))"
proof -
  have "c \<in> fst ` set (zip (columns fr) (upcast vs))"
    using assms by (metis length_upcast map_fst_zip set_map)
  then obtain v where "map_of (zip (columns fr) (upcast vs)) c = Some v"
    by (metis domD dom_map_of_conv_image_fst)
  then show ?thesis
    using assms by (simp add: cell_text_def loc_def getitem_def)
qed

lemma row_texts_sub:
  assumes "map_of (rows fr) label = Some vs" "length vs = length (columns fr)"
    and "set cs \<subseteq> set (columns fr)"
  shows "row_texts fr label cs =
           Inr (map (\<lambda>c. py_str (the (map_of (zip (columns fr) (upcast vs)) c))) cs)"
  using assms(3)
  by (induction cs) (simp_all add: cell_text_closed [OF assms(1,2)])

lemma looked_up_texts:
  assumes "distinct cs" "length vs = length cs"
  shows "map (\<lambda>c. py_str (the (map_of (zip cs (upcast vs)) c))) cs = map py_str (upcast vs)"
proof -
  have "map (\<lambda>c. py_str (the (map_of (zip cs (upcast vs)) c))) cs =
        map py_str (map (\<lambda>c. the (map_of (zip cs (upcast vs)) c)) cs)"
    by simp
  also have "\<dots> = map py_str (upcast vs)"
    using assms by (simp only: map_lookup_zip [of cs "upcast vs"] length_upcast)
  finally show ?thesis .
qed

lemma row_texts_closed:
  assumes "map_of (rows fr) label = Some vs" "length vs = length (columns fr)"
    and "distinct (columns fr)"
  shows "row_texts fr label (columns fr) = Inr (map py_str (upcast vs))"
  using row_texts_sub [OF assms(1,2), of "columns fr"] looked_up_texts [OF assms(3,2)]
  by simp

lemma wf_frame_lookup:
  assumes "wf_frame fr" "r \<in> set (rows fr)"
  shows "map_of (rows fr) (fst r) = Some (snd r)"
  using assms by (simp add: wf_frame_def index_def)

lemma wf_frame_length:
  assumes "wf_frame fr" "r \<in> set (rows fr)"
  shows "length (snd r) = length (columns fr)"
  using assms by (simp add: wf_frame_def list_all_iff)

lemma platform_rows_sub:
  assumes "wf_frame fr" "set rs \<subseteq> set (rows fr)"
  shows "platform_rows fr (map fst rs) = Inr (map row_cells rs)"
  using assms(2)
proof (induction rs)
  case Nil
  then show ?case by simp
next
  case (Cons r rs)
  then have r: "r \<in> set (rows fr)" by simp
  have "distinct (columns fr)"
    using assms(1) by (simp add: wf_frame_def)
  then have "row_texts fr (fst r) (columns fr) = Inr (map py_str (upcast (snd r)))"
    using wf_frame_lookup [OF assms(1) r] wf_frame_length [OF assms(1) r]
    by (intro row_texts_closed)
  then show ?case using Cons by (simp add: row_cells_def)
qed

lemma platform_data_closed:
  assumes "wf_frame fr"
  shows "platform_data fr = Inr ((''Platform'' # columns fr) # map row_cells (rows fr))"
  using platform_rows_sub [OF assms, of "rows fr"]
  by (simp add: platform_data_def index_def)

lemma header_loop_closed:
  "idx + length cols \<le> length cells \<Longrightarrow>
   header_loop cells idx cols = Inr (take idx cells @ cols @ drop (idx + length cols) cells)"
proof (induction cols arbitrary: cells idx)
  case Nil
  then show ?case by simp
next
  case (Cons c cols)
  then have "idx < length cells" by simp
  then show ?case
    using Cons.IH [of "Suc idx" "cells[idx := c]"] Cons.prems
    by (simp add: set_cell_def take_Suc_conv_app_nth)
qed

lemma data_cells_loop_closed:
  assumes "map_of (rows fr) label = Some vs" "length vs = length (columns fr)"
  shows "set cs \<subseteq> set (columns fr) \<Longrightarrow> idx + length cs \<le> length cells \<Longrightarrow>
         data_cells_loop fr label cells idx cs =
           Inr (take idx cells @
                map (\<lambda>c. py_str (the (map_of (zip (columns fr) (upcast vs)) c))) cs @
                drop (idx + length cs) cells)"
proof (induction cs arbitrary: cells idx)
  case Nil
  then show ?case by simp
next
  case (Cons c cs)
  then have "idx < length cells" by simp
  then show ?case
    using Cons.IH [of "Suc idx" "cells[idx := py_str (the (map_of (zip (columns fr) (upcast vs)) c))]"]
      Cons.prems
    by (simp add: set_cell_def take_Suc_conv_app_nth cell_text_closed [OF assms])
qed

lemma four_cells: "replicate 4 [] = [] # replicate 3 ([]::string)"
  by (simp add: numeral_eq_Suc)

lemma data_row_closed:
  assumes "wf_frame fr" "length (columns fr) = 3" "r \<in> set (rows fr)"
  shows "data_cells_loop fr (fst r) (fst r # replicate 3 []) 1 (columns fr) = Inr (row_cells r)"
proof -
  have len: "length (snd r) = length (columns fr)"
    using assms by (simp add: wf_frame_length)
  have "distinct (columns fr)"
    using assms(1) by (simp add: wf_frame_def)
  then show ?thesis
    using data_cells_loop_closed [OF wf_frame_lookup [OF assms(1,3)] len,
        of "columns fr" 1 "fst r # replicate 3 []"]
      looked_up_texts [OF _ len] assms(2)
    by (simp add: row_cells_def)
qed

lemma data_rows_loop_sub:
  assumes "wf_frame fr" "length (columns fr) = 3"
  shows "set rs \<subseteq> set (rows fr) \<Longrightarrow>
         data_rows_loop fr table (map fst rs) = Inr (table @ map row_cells rs)"
proof (induction rs arbitrary: table)
  case Nil
  then show ?case by simp
next
  case (Cons r rs)
  then have r: "r \<in> set (rows fr)" by simp
  show ?case
    using Cons data_row_closed [OF assms r]
    by (simp add: set_cell_def four_cells)
qed

lemma platform_table_closed:
  assumes "wf_frame fr" "length (columns fr) = 3"
  shows "platform_table fr = Inr ((''Platform'' # columns fr) # map row_cells (rows fr))"
proof -
  have "header_loop (''Platform'' # replicate 3 []) 1 (columns fr) = Inr (''Platform'' # columns fr)"
    using header_loop_closed [of 1 "columns fr" "''Platform'' # replicate 3 []"] assms(2)
    by simp
  then show ?thesis
    using data_rows_loop_sub [OF assms, of "rows fr" "[''Platform'' # columns fr]"]
    by (simp add: platform_table_def set_cell_def four_cells index_def)
qed

subsection \<open>Saving the figures\<close>

lemma save_figures_loop_closed:
  "save_figures_loop figures self files =
     (if list_all renders figures then Inr () else Inl RenderingError,
      self\<lparr>image_paths := image_paths self @ map (image_path \<circ> fst) (takeWhile renders figures)\<rparr>,
      write_images (takeWhile renders figures) files)"
proof (induction figures arbitrary: self files)
  case Nil
  then show ?case by simp
next
  case (Cons nf figures)
  obtain name fig where nf: "nf = (name, fig)" by (cases nf)
  show ?case
  proof (cases "fig_png fig")
    case None
    then show ?thesis by (simp add: nf save_figure_as_image_def renders_def)
  next
    case (Some img)
    then show ?thesis
      by (simp add: nf save_figure_as_image_def renders_def Cons.IH image_path_def Let_def)
  qed
qed

lemma save_current_figures_closed:
  "save_current_figures figures self files =
     (if list_all renders figures then Inr () else Inl RenderingError,
      self\<lparr>image_paths := map (image_path \<circ> fst) (takeWhile renders figures)\<rparr>,
      write_images (takeWhile renders figures) files)"
  by (simp add: save_current_figures_def save_figures_loop_closed)

lemma takeWhile_all: "list_all P xs \<Longrightarrow> takeWhile P xs = xs"
  by (induction xs) simp_all

lemma image_path_cases:
  "image_path name = (if hd (name @ ''.png'') = CHR ''/'' then name @ ''.png''
                      else ''output/temp/'' @ name @ ''.png'')"
  by (simp add: image_path_def path_join_def)

lemma image_path_suffix: "suffix ''.png'' (image_path name)"
  by (simp add: image_path_cases suffix_def)

lemma image_path_inj: "image_path a = image_path b \<Longrightarrow> a = b"
  by (auto simp: image_path_cases split: if_splits)

lemma write_images_other:
  "p \<notin> image_path ` fst ` set figures \<Longrightarrow> write_images figures files p = files p"
  by (induction figures arbitrary: files) auto

lemma write_images_not_png:
  "\<not> suffix ''.png'' p \<Longrightarrow> write_images figures files p = files p"
  using image_path_suffix by (intro write_images_other) auto

lemma write_images_same:
  "p \<in> image_path ` fst ` set figures \<Longrightarrow>
   write_images figures files p = write_images figures files' p"
proof (induction figures arbitrary: files files')
  case Nil
  then show ?case by simp
next
  case (Cons nf figures)
  obtain name fig where nf: "nf = (name, fig)" by (cases nf)
  show ?case
  proof (cases "p \<in> image_path ` fst ` set figures")
    case True
    then show ?thesis using Cons.IH by (simp add: nf)
  next
    case False
    then have "p = image_path name" using Cons.prems by (simp add: nf)
    then show ?thesis using False by (simp add: nf write_images_other)
  qed
qed

lemma write_images_png:
  "p \<in> image_path ` fst ` set figures \<Longrightarrow> \<exists>img. write_images figures files p = Some (PngFile img)"
proof (induction figures arbitrary: files)
  case Nil
  then show ?case by simp
next
  case (Cons nf figures)
  obtain name fig where nf: "nf = (name, fig)" by (cases nf)
  show ?case
  proof (cases "p \<in> image_path ` fst ` set figures")
    case True
    then show ?thesis using Cons.IH by (simp add: nf)
  next
    case False
    then have "p = image_path name" using Cons.prems by (simp add: nf)
    then show ?thesis using False by (simp add: nf write_images_other)
  qed
qed

lemma write_images_distinct:
  "distinct (map fst figures) \<Longrightarrow> (name, fig) \<in> set figures \<Longrightarrow>
   write_images figures files (image_path name) = Some (PngFile (the (fig_png fig)))"
proof (induction figures arbitrary: files)
  case Nil
  then show ?case by simp
next
  case (Cons nf figures)
  obtain n f where nf: "nf = (n, f)" by (cases nf)
  show ?case
  proof (cases "(name, fig) \<in> set figures")
    case True
    then show ?thesis using Cons by (simp add: nf)
  next
    case False
    then have eq: "n = name" "f = fig" using Cons.prems by (simp_all add: nf)
    have "image_path name \<notin> image_path ` fst ` set figures"
      using Cons.prems(1) image_path_inj by (auto simp: nf eq)
    then show ?thesis by (simp add: nf eq write_images_other)
  qed
qed

lemma written_are_png:
  "\<forall>p \<in> set (map (image_path \<circ> fst) figures).
     \<exists>img. write_images figures files p = Some (PngFile img)"
  using write_images_png [of _ figures files] by auto

lemma png_at_written:
  "distinct (map fst figures) \<Longrightarrow>
   map (png_at (write_images figures files)) (map (image_path \<circ> fst) figures) =
   map (\<lambda>nf. the (fig_png (snd nf))) figures"
  by (auto simp: png_at_def write_images_distinct)

lemma png_at_same:
  "map (png_at (write_images figures files)) (map (image_path \<circ> fst) figures) =
   map (png_at (write_images figures files')) (map (image_path \<circ> fst) figures)"
  using write_images_same [of _ figures files files'] by (auto simp: png_at_def)

lemma read_images_closed:
  "\<forall>p \<in> set ps. \<exists>img. files p = Some (PngFile img) \<Longrightarrow>
   read_images files ps = Inr (map (png_at files) ps)"
  by (induction ps) (auto simp: png_at_def)

lemma add_pictures_closed:
  "\<forall>p \<in> set ps. \<exists>img. files p = Some (PngFile img) \<Longrightarrow>
   add_pictures files ps = Inr (picture_blocks ps, map (png_at files) ps)"
  by (induction ps) (auto simp: png_at_def)

lemma image_sources_flowables [simp]: "image_sources (image_flowables ps) = ps"
  by (induction ps) simp_all

lemma image_sources_append [simp]: "image_sources (xs @ ys) = image_sources xs @ image_sources ys"
  by (induction xs rule: image_sources.induct) simp_all

lemma docx_pictures_blocks [simp]: "docx_pictures (picture_blocks ps) = ps"
  by (induction ps) simp_all

subsection \<open>The two generate calls in closed form\<close>

lemma generate_pdf_ok:
  assumes "wf_frame (platform_stats self)" "list_all renders figures"
  shows "generate_pdf now figures self files =
    (Inr (pdf_filename now),
     self\<lparr>image_paths := map (image_path \<circ> fst) figures\<rparr>,
     (write_images figures files)
       (pdf_filename now \<mapsto>
          PdfFile
            (pdf_story (self\<lparr>image_paths := map (image_path \<circ> fst) figures\<rparr>)
               ((''Platform'' # columns (platform_stats self)) #
                map row_cells (rows (platform_stats self))))
            (map (png_at (write_images figures files)) (map (image_path \<circ> fst) figures))))"
proof -
  have "image_sources (pdf_story (self\<lparr>image_paths := map (image_path \<circ> fst) figures\<rparr>) pd) =
        map (image_path \<circ> fst) figures" for pd
    by (simp add: pdf_story_def)
  then show ?thesis
    using assms read_images_closed [OF written_are_png [of figures files]]
    by (simp add: generate_pdf_def save_current_figures_closed takeWhile_all
        platform_data_closed doc_build_def Let_def)
qed

lemma generate_pdf_fail:
  assumes "\<not> list_all renders figures"
  shows "generate_pdf now figures self files =
    (Inl RenderingError,
     self\<lparr>image_paths := map (image_path \<circ> fst) (takeWhile renders figures)\<rparr>,
     write_images (takeWhile renders figures) files)"
  using assms by (simp add: generate_pdf_def save_current_figures_closed)

lemma generate_word_ok:
  assumes "stats_ready self" "list_all renders figures"
  shows "generate_word now figures self files =
    (Inr (word_filename now),
     self\<lparr>image_paths := map (image_path \<circ> fst) figures\<rparr>,
     (write_images figures files)
       (word_filename now \<mapsto>
          DocxFile
            (word_body (self\<lparr>image_paths := map (image_path \<circ> fst) figures\<rparr>)
               ((''Platform'' # columns (platform_stats self)) #
                map row_cells (rows (platform_stats self)))
               (picture_blocks (map (image_path \<circ> fst) figures)))
            (map (png_at (write_images figures files)) (map (image_path \<circ> fst) figures))))"
  using assms add_pictures_closed [OF written_are_png [of figures files]]
  by (simp add: generate_word_def save_current_figures_closed takeWhile_all
      platform_table_closed stats_ready_def Let_def)

lemma generate_word_fail:
  assumes "\<not> list_all renders figures"
  shows "generate_word now figures self files =
    (Inl RenderingError,
     self\<lparr>image_paths := map (image_path \<circ> fst) (takeWhile renders figures)\<rparr>,
     write_images (takeWhile renders figures) files)"
  using assms by (simp add: generate_word_def save_current_figures_closed)

lemma pdf_success:
  assumes "outcome (generate_pdf now figures self files) = Inr p"
  shows "list_all renders figures"
  using assms generate_pdf_fail [of figures now self files]
  by (cases "list_all renders figures") (simp_all add: outcome_def)

lemma word_success:
  assumes "outcome (generate_word now figures self files) = Inr p"
  shows "list_all renders figures"
  using assms generate_word_fail [of figures now self files]
  by (cases "list_all renders figures") (simp_all add: outcome_def)

subsection \<open>The sections of the two documents\<close>

lemma flowables_no_heading: "list_all (\<lambda>x. pdf_heading x = None) (image_flowables ps)"
  by (induction ps) simp_all

lemma flowables_no_section [simp]: "split_sections pdf_heading (image_flowables ps) = []"
  by (induction ps) simp_all

lemma pictures_no_heading: "list_all (\<lambda>x. docx_heading x = None) (picture_blocks ps)"
  by (induction ps) simp_all

lemma pictures_no_section [simp]: "split_sections docx_heading (picture_blocks ps) = []"
  by (induction ps) simp_all

lemma pdf_sections_story:
  "pdf_sections (pdf_story self pd) =
     [(''E-commerce Delivery Analytics Report'',
       [Paragraph ''Created by: Vijeta Thakur'' Author, Spacer 1 12]),
      (''Dataset Overview'', [Table (overview_data self) OverviewTableStyle, Spacer 1 20]),
      (''Platform Performance Metrics'', [Table pd PlatformTableStyle, Spacer 1 20]),
      (''Visualizations'', image_flowables (image_paths self))]"
  by (simp add: pdf_sections_def pdf_story_def takeWhile_all [OF flowables_no_heading])

lemma docx_sections_body:
  "docx_sections (word_body self pt (picture_blocks ps)) =
     [(''E-commerce Delivery Analytics Report'',
       [DocxParagraph ''Created by: Vijeta Thakur'' (Some 1) ''Subtitle'']),
      (''Dataset Overview'',
       [DocxTable (overview_table self) ''Table Grid'', DocxParagraph [] None ''Normal'']),
      (''Platform Performance Metrics'',
       [DocxTable pt ''Table Grid'', DocxParagraph [] None ''Normal'']),
      (''Visualizations'', picture_blocks ps)]"
  by (simp add: docx_sections_def word_body_def takeWhile_all [OF pictures_no_heading])

subsection \<open>The constructor and the small dataset\<close>

lemma init_wf: "wf_frame (platform_stats (ReportGenerator_init m d))"
  by (simp add: wf_frame_def ReportGenerator_init_def index_def groupby_keys_def comp_def
      Let_def list_all_iff)

lemma init_ready: "stats_ready (ReportGenerator_init m d)"
  using init_wf [of m d] by (simp add: stats_ready_def) (simp add: ReportGenerator_init_def)

lemma stats_ready_paths [simp]: "stats_ready (self\<lparr>image_paths := ps\<rparr>) = stats_ready self"
  by (simp add: stats_ready_def)

lemma demo_renders: "list_all renders demo_figures"
  by (simp add: demo_figures_def renders_def)

lemma demo_pdf_filename:
  "pdf_filename demo_now = ''output/reports/ecommerce_analysis_report_20250309_140559.pdf''"
  by (simp add: pdf_filename_def strftime_def pad4_def pad2_def digit_char_def demo_now_def)

lemma demo_word_filename:
  "word_filename demo_now = ''output/reports/ecommerce_analysis_report_20250309_140559.docx''"
  by (simp add: word_filename_def strftime_def pad4_def pad2_def digit_char_def demo_now_def)

lemma demo_ready: "stats_ready demo_generator"
  by (simp add: demo_generator_def init_ready)

lemma demo_stats:
  "platform_stats demo_generator =
     \<lparr>columns = [''Avg Order Value'', ''Avg Delivery Time'', ''Total Orders''],
      rows = [(''Swiggy'', [PyFloat (Hundredths 9550), PyFloat (Hundredths 2500), PyInt 1]),
              (''Zepto'', [PyFloat (Hundredths 123450), PyFloat (Hundredths 3050), PyInt 2])]\<rparr>"
  by (simp add: demo_generator_def ReportGenerator_init_def groupby_keys_def demo_orders_def
      demo_mean_def agg_mean_def agg_count_def Let_def)

section \<open>The claims\<close>

text \<open>
  The generator of an instance changes between calls in \<^verbatim>\<open>image_paths\<close> only, so two
  states of one instance are \<open>self\<close> and \<open>self\<lparr>image_paths := ps\<rparr>\<close>.
\<close>

text \<open>
  C1: for every dataset and every ordered mapping of named figures, the PDF written by
  \<^verbatim>\<open>generate_pdf\<close> and the Word document written by \<^verbatim>\<open>generate_word\<close> on the same
  instance have the same sections in the same order, and their platform-performance
  tables are the same table: the same columns, the same rows, the same cell texts, all
  in the same order. (The images are the same as well.)
\<close>

theorem pdf_word_parity:
  assumes "stats_ready self"
    and "outcome (generate_pdf now1 figures self files1) = Inr p1"
    and "outcome (generate_word now2 figures (self\<lparr>image_paths := ps\<rparr>) files2) = Inr p2"
  shows "map fst (pdf_sections (pdf_at (files_after (generate_pdf now1 figures self files1)) p1)) =
           [''E-commerce Delivery Analytics Report'', ''Dataset Overview'',
            ''Platform Performance Metrics'', ''Visualizations''] \<and>
         map fst (docx_sections (docx_at
             (files_after (generate_word now2 figures (self\<lparr>image_paths := ps\<rparr>) files2)) p2)) =
           [''E-commerce Delivery Analytics Report'', ''Dataset Overview'',
            ''Platform Performance Metrics'', ''Visualizations''] \<and>
         (\<exists>tbl.
            pdf_tables (pdf_section ''Platform Performance Metrics''
              (pdf_at (files_after (generate_pdf now1 figures self files1)) p1)) = [tbl] \<and>
            docx_tables (docx_section ''Platform Performance Metrics''
              (docx_at (files_after (generate_word now2 figures (self\<lparr>image_paths := ps\<rparr>) files2))
                 p2)) = [tbl]) \<and>
         image_sources (pdf_section ''Visualizations''
              (pdf_at (files_after (generate_pdf now1 figures self files1)) p1)) =
           docx_pictures (docx_section ''Visualizations''
              (docx_at (files_after (generate_word now2 figures (self\<lparr>image_paths := ps\<rparr>) files2))
                 p2)) \<and>
         images_at (files_after (generate_pdf now1 figures self files1)) p1 =
           images_at (files_after (generate_word now2 figures (self\<lparr>image_paths := ps\<rparr>) files2)) p2"
proof -
  have ok: "list_all renders figures"
    using assms(2) by (rule pdf_success)
  have wf: "wf_frame (platform_stats self)"
    using assms(1) by (simp add: stats_ready_def)
  have ready: "stats_ready (self\<lparr>image_paths := ps\<rparr>)"
    using assms(1) by simp
  have p1: "p1 = pdf_filename now1"
    using assms(2) by (simp add: generate_pdf_ok [OF wf ok] outcome_def)
  have p2: "p2 = word_filename now2"
    using assms(3) by (simp add: generate_word_ok [OF ready ok] outcome_def)
  show ?thesis
    unfolding p1 p2 generate_pdf_ok [OF wf ok] generate_word_ok [OF ready ok] files_after_def
    using png_at_same [of figures files2 files1]
    by (simp add: pdf_at_def docx_at_def images_at_def pdf_section_def docx_section_def
        pdf_sections_story docx_sections_body section_body_def)
qed

theorem pdf_word_parity_witness:
  "stats_ready demo_generator \<and>
   outcome (generate_pdf demo_now demo_figures demo_generator Map.empty) =
     Inr ''output/reports/ecommerce_analysis_report_20250309_140559.pdf'' \<and>
   outcome (generate_word demo_now demo_figures (demo_generator\<lparr>image_paths := []\<rparr>) Map.empty) =
     Inr ''output/reports/ecommerce_analysis_report_20250309_140559.docx'' \<and>
   map fst (pdf_sections (pdf_at
       (files_after (generate_pdf demo_now demo_figures demo_generator Map.empty))
       ''output/reports/ecommerce_analysis_report_20250309_140559.pdf'')) =
     map fst (docx_sections (docx_at
       (files_after (generate_word demo_now demo_figures (demo_generator\<lparr>image_paths := []\<rparr>)
          Map.empty))
       ''output/reports/ecommerce_analysis_report_20250309_140559.docx'')) \<and>
   pdf_tables (pdf_section ''Platform Performance Metrics'' (pdf_at
       (files_after (generate_pdf demo_now demo_figures demo_generator Map.empty))
       ''output/reports/ecommerce_analysis_report_20250309_140559.pdf'')) =
     docx_tables (docx_section ''Platform Performance Metrics'' (docx_at
       (files_after (generate_word demo_now demo_figures (demo_generator\<lparr>image_paths := []\<rparr>)
          Map.empty))
       ''output/reports/ecommerce_analysis_report_20250309_140559.docx''))"
proof -
  have wf: "wf_frame (platform_stats demo_generator)"
    using demo_ready by (simp add: stats_ready_def)
  have h2: "outcome (generate_pdf demo_now demo_figures demo_generator Map.empty) =
     Inr ''output/reports/ecommerce_analysis_report_20250309_140559.pdf''"
    by (simp add: generate_pdf_ok [OF wf demo_renders] outcome_def demo_pdf_filename)
  have h3: "outcome (generate_word demo_now demo_figures (demo_generator\<lparr>image_paths := []\<rparr>) Map.empty) =
     Inr ''output/reports/ecommerce_analysis_report_20250309_140559.docx''"
    using demo_ready
    by (simp add: generate_word_ok [OF _ demo_renders] outcome_def demo_word_filename)
  show ?thesis
    using pdf_word_parity [OF demo_ready h2 h3] demo_ready h2 h3 by auto
qed

lemma pdf_filename_not_png: "\<not> suffix ''.png'' (pdf_filename now)"
  by (simp add: pdf_filename_def suffix_def)

lemma word_filename_not_png: "\<not> suffix ''.png'' (word_filename now)"
  by (simp add: word_filename_def suffix_def)

lemma broken_not_renders: "\<not> list_all renders broken_figures"
  by (simp add: broken_figures_def renders_def)

text \<open>
  C2: for every mapping of figures, if the export of any one figure fails, the whole call
  (\<^verbatim>\<open>generate_pdf\<close> or \<^verbatim>\<open>generate_word\<close>) fails with the rendering error and no
  document is created: every file that is not a \<^verbatim>\<open>.png\<close> image is as it was before
  the call, in particular the file at the report's path.
\<close>

theorem failing_figure_aborts:
  assumes "(name, fig) \<in> set figures" and "fig_png fig = None"
  shows "outcome (generate_pdf now figures self files) = Inl RenderingError \<and>
         outcome (generate_word now figures self files) = Inl RenderingError \<and>
         (\<forall>p. \<not> suffix ''.png'' p \<longrightarrow>
            files_after (generate_pdf now figures self files) p = files p \<and>
            files_after (generate_word now figures self files) p = files p) \<and>
         files_after (generate_pdf now figures self files) (pdf_filename now) =
           files (pdf_filename now) \<and>
         files_after (generate_word now figures self files) (word_filename now) =
           files (word_filename now)"
proof -
  have "\<not> renders (name, fig)"
    using assms(2) by (simp add: renders_def)
  then have bad: "\<not> list_all renders figures"
    using assms(1) by (auto simp: list_all_iff)
  show ?thesis
    by (simp add: generate_pdf_fail [OF bad] generate_word_fail [OF bad] outcome_def
        files_after_def write_images_not_png pdf_filename_not_png word_filename_not_png)
qed

theorem failing_figure_aborts_witness:
  "(''boxplot'', \<lparr>fig_title = ''Delivery Time by Platform'', fig_png = None\<rparr>) \<in> set broken_figures \<and>
   fig_png \<lparr>fig_title = ''Delivery Time by Platform'', fig_png = None\<rparr> = None \<and>
   outcome (generate_pdf demo_now broken_figures demo_generator Map.empty) = Inl RenderingError \<and>
   outcome (generate_word demo_now broken_figures demo_generator Map.empty) = Inl RenderingError \<and>
   files_after (generate_pdf demo_now broken_figures demo_generator Map.empty)
     ''output/reports/ecommerce_analysis_report_20250309_140559.pdf'' = None \<and>
   files_after (generate_word demo_now broken_figures demo_generator Map.empty)
     ''output/reports/ecommerce_analysis_report_20250309_140559.docx'' = None"
proof -
  have h1: "(''boxplot'', \<lparr>fig_title = ''Delivery Time by Platform'', fig_png = None\<rparr>) \<in> set broken_figures"
    by (simp add: broken_figures_def)
  have h2: "fig_png \<lparr>fig_title = ''Delivery Time by Platform'', fig_png = None\<rparr> = None"
    by simp
  show ?thesis
    using failing_figure_aborts [OF h1 h2, of demo_now demo_generator Map.empty] h1
    by (simp add: demo_pdf_filename demo_word_filename)
qed

text \<open>
  C3: for a statistics table with \<open>N\<close> platforms, the platform-performance table of the
  generated document (either format) has one header row and \<open>N\<close> data rows, and the
  data rows are in the order of the platforms in the table (its index), not sorted
  again.
\<close>

theorem platform_table_rows:
  assumes "stats_ready self"
  shows "(outcome (generate_pdf now figures self files) = Inr p \<longrightarrow>
            (\<exists>tbl. pdf_tables (pdf_section ''Platform Performance Metrics''
                      (pdf_at (files_after (generate_pdf now figures self files)) p)) = [tbl] \<and>
                   length tbl = length (index (platform_stats self)) + 1 \<and>
                   map hd (tl tbl) = index (platform_stats self))) \<and>
         (outcome (generate_word now figures self files) = Inr p \<longrightarrow>
            (\<exists>tbl. docx_tables (docx_section ''Platform Performance Metrics''
                      (docx_at (files_after (generate_word now figures self files)) p)) = [tbl] \<and>
                   length tbl = length (index (platform_stats self)) + 1 \<and>
                   map hd (tl tbl) = index (platform_stats self)))"
proof -
  have wf: "wf_frame (platform_stats self)"
    using assms by (simp add: stats_ready_def)
  have pdf: "\<exists>tbl. pdf_tables (pdf_section ''Platform Performance Metrics''
                      (pdf_at (files_after (generate_pdf now figures self files)) p)) = [tbl] \<and>
                   length tbl = length (index (platform_stats self)) + 1 \<and>
                   map hd (tl tbl) = index (platform_stats self)"
    if "outcome (generate_pdf now figures self files) = Inr p"
  proof -
    have ok: "list_all renders figures" using that by (rule pdf_success)
    have p: "p = pdf_filename now"
      using that by (simp add: generate_pdf_ok [OF wf ok] outcome_def)
    show ?thesis
      unfolding p generate_pdf_ok [OF wf ok] files_after_def
      by (simp add: pdf_at_def pdf_section_def pdf_sections_story section_body_def index_def
          row_cells_def)
  qed
  have word: "\<exists>tbl. docx_tables (docx_section ''Platform Performance Metrics''
                      (docx_at (files_after (generate_word now figures self files)) p)) = [tbl] \<and>
                   length tbl = length (index (platform_stats self)) + 1 \<and>
                   map hd (tl tbl) = index (platform_stats self)"
    if "outcome (generate_word now figures self files) = Inr p"
  proof -
    have ok: "list_all renders figures" using that by (rule word_success)
    have p: "p = word_filename now"
      using that by (simp add: generate_word_ok [OF assms ok] outcome_def)
    show ?thesis
      unfolding p generate_word_ok [OF assms ok] files_after_def
      by (simp add: docx_at_def docx_section_def docx_sections_body section_body_def index_def
          row_cells_def)
  qed
  show ?thesis using pdf word by blast
qed

theorem platform_table_rows_witness:
  "stats_ready demo_generator \<and>
   index (platform_stats demo_generator) = [''Swiggy'', ''Zepto''] \<and>
   outcome (generate_pdf demo_now demo_figures demo_generator Map.empty) =
     Inr ''output/reports/ecommerce_analysis_report_20250309_140559.pdf'' \<and>
   (\<exists>tbl. pdf_tables (pdf_section ''Platform Performance Metrics''
             (pdf_at (files_after (generate_pdf demo_now demo_figures demo_generator Map.empty))
                ''output/reports/ecommerce_analysis_report_20250309_140559.pdf'')) = [tbl] \<and>
          length tbl = 3 \<and> map hd (tl tbl) = [''Swiggy'', ''Zepto'']) \<and>
   outcome (generate_word demo_now demo_figures demo_generator Map.empty) =
     Inr ''output/reports/ecommerce_analysis_report_20250309_140559.docx'' \<and>
   (\<exists>tbl. docx_tables (docx_section ''Platform Performance Metrics''
             (docx_at (files_after (generate_word demo_now demo_figures demo_generator Map.empty))
                ''output/reports/ecommerce_analysis_report_20250309_140559.docx'')) = [tbl] \<and>
          length tbl = 3 \<and> map hd (tl tbl) = [''Swiggy'', ''Zepto''])"
proof -
  have wf: "wf_frame (platform_stats demo_generator)"
    using demo_ready by (simp add: stats_ready_def)
  have idx: "index (platform_stats demo_generator) = [''Swiggy'', ''Zepto'']"
    by (simp add: demo_stats index_def)
  have h2: "outcome (generate_pdf demo_now demo_figures demo_generator Map.empty) =
     Inr ''output/reports/ecommerce_analysis_report_20250309_140559.pdf''"
    by (simp add: generate_pdf_ok [OF wf demo_renders] outcome_def demo_pdf_filename)
  have h3: "outcome (generate_word demo_now demo_figures demo_generator Map.empty) =
     Inr ''output/reports/ecommerce_analysis_report_20250309_140559.docx''"
    by (simp add: generate_word_ok [OF demo_ready demo_renders] outcome_def demo_word_filename)
  show ?thesis
    using platform_table_rows [OF demo_ready, of demo_now demo_figures Map.empty
        "''output/reports/ecommerce_analysis_report_20250309_140559.pdf''"]
      platform_table_rows [OF demo_ready, of demo_now demo_figures Map.empty
        "''output/reports/ecommerce_analysis_report_20250309_140559.docx''"]
      demo_ready h2 h3 idx
    by (simp add: eval_nat_numeral)
qed

lemma docx_pictures_append [simp]: "docx_pictures (xs @ ys) = docx_pictures xs @ docx_pictures ys"
  by (induction xs rule: docx_pictures.induct) simp_all

lemma image_sources_story: "image_sources (pdf_story self pd) = image_paths self"
  by (simp add: pdf_story_def)

lemma docx_pictures_body: "docx_pictures (word_body self pt (picture_blocks ps)) = ps"
  by (simp add: word_body_def)

text \<open>
  C9: for an empty mapping of figures, the call (either format) succeeds and writes a
  document whose Visualizations section is there and holds no image block; the document
  embeds no image.
\<close>

theorem empty_chart_set:
  assumes "stats_ready self"
  shows "outcome (generate_pdf now [] self files) = Inr (pdf_filename now) \<and>
         map fst (pdf_sections (pdf_at (files_after (generate_pdf now [] self files))
             (pdf_filename now))) =
           [''E-commerce Delivery Analytics Report'', ''Dataset Overview'',
            ''Platform Performance Metrics'', ''Visualizations''] \<and>
         pdf_section ''Visualizations''
           (pdf_at (files_after (generate_pdf now [] self files)) (pdf_filename now)) = [] \<and>
         image_sources (pdf_at (files_after (generate_pdf now [] self files)) (pdf_filename now)) = [] \<and>
         images_at (files_after (generate_pdf now [] self files)) (pdf_filename now) = [] \<and>
         outcome (generate_word now [] self files) = Inr (word_filename now) \<and>
         map fst (docx_sections (docx_at (files_after (generate_word now [] self files))
             (word_filename now))) =
           [''E-commerce Delivery Analytics Report'', ''Dataset Overview'',
            ''Platform Performance Metrics'', ''Visualizations''] \<and>
         docx_section ''Visualizations''
           (docx_at (files_after (generate_word now [] self files)) (word_filename now)) = [] \<and>
         docx_pictures (docx_at (files_after (generate_word now [] self files)) (word_filename now)) = [] \<and>
         images_at (files_after (generate_word now [] self files)) (word_filename now) = []"
proof -
  have wf: "wf_frame (platform_stats self)"
    using assms by (simp add: stats_ready_def)
  have ok: "list_all renders []" by simp
  show ?thesis
    unfolding generate_pdf_ok [OF wf ok] generate_word_ok [OF assms ok] files_after_def
      outcome_def
    by (simp add: pdf_at_def docx_at_def images_at_def pdf_section_def docx_section_def
        pdf_sections_story docx_sections_body [of _ _ "[]", simplified] section_body_def
        image_sources_story docx_pictures_body [of _ _ "[]", simplified])
qed

theorem empty_chart_set_witness:
  "stats_ready demo_generator \<and>
   outcome (generate_pdf demo_now [] demo_generator Map.empty) =
     Inr ''output/reports/ecommerce_analysis_report_20250309_140559.pdf'' \<and>
   pdf_section ''Visualizations''
     (pdf_at (files_after (generate_pdf demo_now [] demo_generator Map.empty))
        ''output/reports/ecommerce_analysis_report_20250309_140559.pdf'') = [] \<and>
   outcome (generate_word demo_now [] demo_generator Map.empty) =
     Inr ''output/reports/ecommerce_analysis_report_20250309_140559.docx'' \<and>
   docx_section ''Visualizations''
     (docx_at (files_after (generate_word demo_now [] demo_generator Map.empty))
        ''output/reports/ecommerce_analysis_report_20250309_140559.docx'') = []"
  using empty_chart_set [OF demo_ready, of demo_now Map.empty] demo_ready
  by (simp add: demo_pdf_filename demo_word_filename)

text \<open>
  C10: every call (either format) replaces the stored list of image paths: whatever the
  list held before, after the call it holds paths of this call's figures only, in the
  order of the mapping (a leading part of them when an export failed, one path per
  figure when the call succeeded). The images of the written document are those of this
  call's figures: the same paths in the same order, with the image data of these figures.
\<close>

theorem image_paths_replaced:
  assumes "stats_ready self" and "distinct (map fst figures)"
  shows "prefix (image_paths (self_after (generate_pdf now figures self files)))
           (map (image_path \<circ> fst) figures) \<and>
         prefix (image_paths (self_after (generate_word now figures self files)))
           (map (image_path \<circ> fst) figures) \<and>
         (outcome (generate_pdf now figures self files) = Inr p \<longrightarrow>
            image_paths (self_after (generate_pdf now figures self files)) =
              map (image_path \<circ> fst) figures \<and>
            image_sources (pdf_at (files_after (generate_pdf now figures self files)) p) =
              map (image_path \<circ> fst) figures \<and>
            images_at (files_after (generate_pdf now figures self files)) p =
              map (\<lambda>nf. the (fig_png (snd nf))) figures) \<and>
         (outcome (generate_word now figures self files) = Inr p \<longrightarrow>
            image_paths (self_after (generate_word now figures self files)) =
              map (image_path \<circ> fst) figures \<and>
            docx_pictures (docx_at (files_after (generate_word now figures self files)) p) =
              map (image_path \<circ> fst) figures \<and>
            images_at (files_after (generate_word now figures self files)) p =
              map (\<lambda>nf. the (fig_png (snd nf))) figures)"
proof (cases "list_all renders figures")
  case True
  have wf: "wf_frame (platform_stats self)"
    using assms(1) by (simp add: stats_ready_def)
  show ?thesis
    unfolding generate_pdf_ok [OF wf True] generate_word_ok [OF assms(1) True] files_after_def
      outcome_def self_after_def
    using png_at_written [OF assms(2), of files]
    by (simp add: pdf_at_def docx_at_def images_at_def image_sources_story docx_pictures_body)
next
  case False
  have "prefix (map (image_path \<circ> fst) (takeWhile renders figures)) (map (image_path \<circ> fst) figures)"
    by (metis map_mono_prefix takeWhile_is_prefix)
  then show ?thesis
    unfolding generate_pdf_fail [OF False] generate_word_fail [OF False] files_after_def
      outcome_def self_after_def
    by simp
qed

theorem image_paths_replaced_witness:
  "stats_ready (demo_generator\<lparr>image_paths := [''output/temp/earlier.png'']\<rparr>) \<and>
   distinct (map fst demo_figures) \<and>
   outcome (generate_pdf demo_now demo_figures
       (demo_generator\<lparr>image_paths := [''output/temp/earlier.png'']\<rparr>) Map.empty) =
     Inr ''output/reports/ecommerce_analysis_report_20250309_140559.pdf'' \<and>
   image_paths (self_after (generate_pdf demo_now demo_figures
       (demo_generator\<lparr>image_paths := [''output/temp/earlier.png'']\<rparr>) Map.empty)) =
     [''output/temp/scatter_plot.png'', ''output/temp/boxplot.png''] \<and>
   image_sources (pdf_at (files_after (generate_pdf demo_now demo_figures
       (demo_generator\<lparr>image_paths := [''output/temp/earlier.png'']\<rparr>) Map.empty))
       ''output/reports/ecommerce_analysis_report_20250309_140559.pdf'') =
     [''output/temp/scatter_plot.png'', ''output/temp/boxplot.png''] \<and>
   images_at (files_after (generate_pdf demo_now demo_figures
       (demo_generator\<lparr>image_paths := [''output/temp/earlier.png'']\<rparr>) Map.empty))
       ''output/reports/ecommerce_analysis_report_20250309_140559.pdf'' = [''PNG-1'', ''PNG-2''] \<and>
   outcome (generate_word demo_now demo_figures
       (demo_generator\<lparr>image_paths := [''output/temp/earlier.png'']\<rparr>) Map.empty) =
     Inr ''output/reports/ecommerce_analysis_report_20250309_140559.docx'' \<and>
   docx_pictures (docx_at (files_after (generate_word demo_now demo_figures
       (demo_generator\<lparr>image_paths := [''output/temp/earlier.png'']\<rparr>) Map.empty))
       ''output/reports/ecommerce_analysis_report_20250309_140559.docx'') =
     [''output/temp/scatter_plot.png'', ''output/temp/boxplot.png'']"
proof -
  have r: "stats_ready (demo_generator\<lparr>image_paths := [''output/temp/earlier.png'']\<rparr>)"
    using demo_ready by simp
  have wf: "wf_frame (platform_stats (demo_generator\<lparr>image_paths := [''output/temp/earlier.png'']\<rparr>))"
    using r by (simp add: stats_ready_def)
  have d: "distinct (map fst demo_figures)"
    by (simp add: demo_figures_def)
  have h1: "outcome (generate_pdf demo_now demo_figures
       (demo_generator\<lparr>image_paths := [''output/temp/earlier.png'']\<rparr>) Map.empty) =
     Inr ''output/reports/ecommerce_analysis_report_20250309_140559.pdf''"
    by (simp add: generate_pdf_ok [OF wf demo_renders] outcome_def demo_pdf_filename)
  have h2: "outcome (generate_word demo_now demo_figures
       (demo_generator\<lparr>image_paths := [''output/temp/earlier.png'']\<rparr>) Map.empty) =
     Inr ''output/reports/ecommerce_analysis_report_20250309_140559.docx''"
    by (simp add: generate_word_ok [OF r demo_renders] outcome_def demo_word_filename)
  have paths: "map (image_path \<circ> fst) demo_figures =
      [''output/temp/scatter_plot.png'', ''output/temp/boxplot.png'']"
    by (simp add: demo_figures_def image_path_cases)
  have pngs: "map (\<lambda>nf. the (fig_png (snd nf))) demo_figures = [''PNG-1'', ''PNG-2'']"
    by (simp add: demo_figures_def)
  show ?thesis
    using image_paths_replaced [OF r d, of demo_now Map.empty
        "''output/reports/ecommerce_analysis_report_20250309_140559.pdf''"]
      image_paths_replaced [OF r d, of demo_now Map.empty
        "''output/reports/ecommerce_analysis_report_20250309_140559.docx''"]
      r d h1 h2 paths pngs
    by simp
qed

lemma demo_row_cells:
  "map row_cells (rows (platform_stats demo_generator)) =
     [[''Swiggy'', ''95.5'', ''25.0'', ''1.0''], [''Zepto'', ''1234.5'', ''30.5'', ''2.0'']]"
  by (simp add: demo_stats row_cells_def upcast_def decimal_text_def py_str_nat.simps
      digit_char_def)

lemma demo_pdf_outcome:
  "outcome (generate_pdf demo_now demo_figures demo_generator Map.empty) =
     Inr ''output/reports/ecommerce_analysis_report_20250309_140559.pdf''"
  using demo_ready
  by (simp add: generate_pdf_ok [OF _ demo_renders] stats_ready_def outcome_def demo_pdf_filename)

lemma demo_word_outcome:
  "outcome (generate_word demo_now demo_figures demo_generator Map.empty) =
     Inr ''output/reports/ecommerce_analysis_report_20250309_140559.docx''"
  by (simp add: generate_word_ok [OF demo_ready demo_renders] outcome_def demo_word_filename)

lemma demo_pdf_table:
  "pdf_tables (pdf_section ''Platform Performance Metrics''
     (pdf_at (files_after (generate_pdf demo_now demo_figures demo_generator Map.empty))
        ''output/reports/ecommerce_analysis_report_20250309_140559.pdf'')) =
     [[[''Platform'', ''Avg Order Value'', ''Avg Delivery Time'', ''Total Orders''],
       [''Swiggy'', ''95.5'', ''25.0'', ''1.0''],
       [''Zepto'', ''1234.5'', ''30.5'', ''2.0'']]]"
proof -
  have wf: "wf_frame (platform_stats demo_generator)"
    using demo_ready by (simp add: stats_ready_def)
  have cols: "columns (platform_stats demo_generator) =
      [''Avg Order Value'', ''Avg Delivery Time'', ''Total Orders'']"
    by (simp add: demo_stats)
  show ?thesis
    unfolding generate_pdf_ok [OF wf demo_renders] files_after_def demo_pdf_filename
    by (simp add: pdf_at_def pdf_section_def pdf_sections_story section_body_def
        demo_row_cells cols)
qed

lemma demo_word_table:
  "docx_tables (docx_section ''Platform Performance Metrics''
     (docx_at (files_after (generate_word demo_now demo_figures demo_generator Map.empty))
        ''output/reports/ecommerce_analysis_report_20250309_140559.docx'')) =
     [[[''Platform'', ''Avg Order Value'', ''Avg Delivery Time'', ''Total Orders''],
       [''Swiggy'', ''95.5'', ''25.0'', ''1.0''],
       [''Zepto'', ''1234.5'', ''30.5'', ''2.0'']]]"
proof -
  have cols: "columns (platform_stats demo_generator) =
      [''Avg Order Value'', ''Avg Delivery Time'', ''Total Orders'']"
    by (simp add: demo_stats)
  show ?thesis
    unfolding generate_word_ok [OF demo_ready demo_renders] files_after_def demo_word_filename
    by (simp add: docx_at_def docx_section_def docx_sections_body section_body_def
        demo_row_cells cols)
qed

lemma init_columns:
  "columns (platform_stats (ReportGenerator_init m d)) =
     [''Avg Order Value'', ''Avg Delivery Time'', ''Total Orders'']"
  unfolding ReportGenerator_init_def by simp

text \<open>
  C6, as the spec states it: in the PDF form the platform-performance table has, besides
  the mean order value, the mean delivery time and the order count, columns for the
  count, minimum and maximum of those metrics. It has not: for the small dataset the
  header row of the PDF table is the platform and the three metric columns, the same as
  in the Word document.
\<close>

theorem pdf_columns_counterexample:
  "map hd (pdf_tables (pdf_section ''Platform Performance Metrics''
     (pdf_at (files_after (generate_pdf demo_now demo_figures demo_generator Map.empty))
        ''output/reports/ecommerce_analysis_report_20250309_140559.pdf''))) =
     [[''Platform'', ''Avg Order Value'', ''Avg Delivery Time'', ''Total Orders'']] \<and>
   map hd (docx_tables (docx_section ''Platform Performance Metrics''
     (docx_at (files_after (generate_word demo_now demo_figures demo_generator Map.empty))
        ''output/reports/ecommerce_analysis_report_20250309_140559.docx''))) =
     [[''Platform'', ''Avg Order Value'', ''Avg Delivery Time'', ''Total Orders'']]"
  by (simp add: demo_pdf_table demo_word_table)

text \<open>
  C6, amended: in the PDF form, as in the Word form, the columns of the
  platform-performance table are exactly Platform, Avg Order Value, Avg Delivery Time and
  Total Orders, for every dataset; there is no count, minimum or maximum column.
\<close>

theorem pdf_columns:
  "(outcome (generate_pdf now figures (ReportGenerator_init m d\<lparr>image_paths := ps\<rparr>) files) = Inr p \<longrightarrow>
      map hd (pdf_tables (pdf_section ''Platform Performance Metrics''
        (pdf_at (files_after
           (generate_pdf now figures (ReportGenerator_init m d\<lparr>image_paths := ps\<rparr>) files)) p))) =
        [[''Platform'', ''Avg Order Value'', ''Avg Delivery Time'', ''Total Orders'']]) \<and>
   (outcome (generate_word now figures (ReportGenerator_init m d\<lparr>image_paths := ps\<rparr>) files) = Inr p \<longrightarrow>
      map hd (docx_tables (docx_section ''Platform Performance Metrics''
        (docx_at (files_after
           (generate_word now figures (ReportGenerator_init m d\<lparr>image_paths := ps\<rparr>) files)) p))) =
        [[''Platform'', ''Avg Order Value'', ''Avg Delivery Time'', ''Total Orders'']])"
proof -
  let ?self = "ReportGenerator_init m d\<lparr>image_paths := ps\<rparr>"
  have ready: "stats_ready ?self"
    by (simp add: init_ready)
  have wf: "wf_frame (platform_stats ?self)"
    using ready by (simp add: stats_ready_def)
  have pdf: "map hd (pdf_tables (pdf_section ''Platform Performance Metrics''
        (pdf_at (files_after (generate_pdf now figures ?self files)) p))) =
        [[''Platform'', ''Avg Order Value'', ''Avg Delivery Time'', ''Total Orders'']]"
    if "outcome (generate_pdf now figures ?self files) = Inr p"
  proof -
    have ok: "list_all renders figures" using that by (rule pdf_success)
    have p: "p = pdf_filename now"
      using that by (simp add: generate_pdf_ok [OF wf ok] outcome_def)
    show ?thesis
      unfolding p generate_pdf_ok [OF wf ok] files_after_def
      by (simp add: pdf_at_def pdf_section_def pdf_sections_story section_body_def init_columns)
  qed
  have word: "map hd (docx_tables (docx_section ''Platform Performance Metrics''
        (docx_at (files_after (generate_word now figures ?self files)) p))) =
        [[''Platform'', ''Avg Order Value'', ''Avg Delivery Time'', ''Total Orders'']]"
    if "outcome (generate_word now figures ?self files) = Inr p"
  proof -
    have ok: "list_all renders figures" using that by (rule word_success)
    have p: "p = word_filename now"
      using that by (simp add: generate_word_ok [OF ready ok] outcome_def)
    show ?thesis
      unfolding p generate_word_ok [OF ready ok] files_after_def
      by (simp add: docx_at_def docx_section_def docx_sections_body section_body_def init_columns)
  qed
  show ?thesis using pdf word by blast
qed

theorem pdf_columns_witness:
  "outcome (generate_pdf demo_now demo_figures
      (ReportGenerator_init demo_mean demo_orders\<lparr>image_paths := []\<rparr>) Map.empty) =
     Inr ''output/reports/ecommerce_analysis_report_20250309_140559.pdf'' \<and>
   map hd (pdf_tables (pdf_section ''Platform Performance Metrics''
     (pdf_at (files_after (generate_pdf demo_now demo_figures
          (ReportGenerator_init demo_mean demo_orders\<lparr>image_paths := []\<rparr>) Map.empty))
        ''output/reports/ecommerce_analysis_report_20250309_140559.pdf''))) =
     [[''Platform'', ''Avg Order Value'', ''Avg Delivery Time'', ''Total Orders'']] \<and>
   outcome (generate_word demo_now demo_figures
      (ReportGenerator_init demo_mean demo_orders\<lparr>image_paths := []\<rparr>) Map.empty) =
     Inr ''output/reports/ecommerce_analysis_report_20250309_140559.docx'' \<and>
   map hd (docx_tables (docx_section ''Platform Performance Metrics''
     (docx_at (files_after (generate_word demo_now demo_figures
          (ReportGenerator_init demo_mean demo_orders\<lparr>image_paths := []\<rparr>) Map.empty))
        ''output/reports/ecommerce_analysis_report_20250309_140559.docx''))) =
     [[''Platform'', ''Avg Order Value'', ''Avg Delivery Time'', ''Total Orders'']]"
proof -
  have r: "stats_ready (ReportGenerator_init demo_mean demo_orders\<lparr>image_paths := []\<rparr>)"
    by (simp add: init_ready)
  have wf: "wf_frame (platform_stats (ReportGenerator_init demo_mean demo_orders\<lparr>image_paths := []\<rparr>))"
    using r by (simp add: stats_ready_def)
  have h1: "outcome (generate_pdf demo_now demo_figures
      (ReportGenerator_init demo_mean demo_orders\<lparr>image_paths := []\<rparr>) Map.empty) =
     Inr ''output/reports/ecommerce_analysis_report_20250309_140559.pdf''"
    by (simp add: generate_pdf_ok [OF wf demo_renders] outcome_def demo_pdf_filename)
  have h2: "outcome (generate_word demo_now demo_figures
      (ReportGenerator_init demo_mean demo_orders\<lparr>image_paths := []\<rparr>) Map.empty) =
     Inr ''output/reports/ecommerce_analysis_report_20250309_140559.docx''"
    by (simp add: generate_word_ok [OF r demo_renders] outcome_def demo_word_filename)
  show ?thesis
    using pdf_columns [where now = demo_now and figures = demo_figures and m = demo_mean
        and d = demo_orders and ps = "[]" and files = Map.empty
        and p = "''output/reports/ecommerce_analysis_report_20250309_140559.pdf''"]
      pdf_columns [where now = demo_now and figures = demo_figures and m = demo_mean
        and d = demo_orders and ps = "[]" and files = Map.empty
        and p = "''output/reports/ecommerce_analysis_report_20250309_140559.docx''"]
      h1 h2
    by simp
qed

lemma digit_char_digit: "digit_char d \<in> set ''0123456789''"
  unfolding digit_char_def by (rule nth_mem) simp

lemma py_str_nat_digits: "set (py_str_nat n) \<subseteq> set ''0123456789''"
proof (induction n rule: py_str_nat.induct)
  case (1 n)
  show ?case
  proof (cases "n < 10")
    case True
    then show ?thesis
      using digit_char_digit [of n] by (subst py_str_nat.simps) simp
  next
    case False
    then show ?thesis
      using 1 digit_char_digit [of "n mod 10"] by (subst py_str_nat.simps) simp
  qed
qed

lemma digits_signed: "set ''0123456789'' \<subseteq> set ''-0123456789''"
  by (rule set_subset_Cons)

lemma decimal_text_form:
  "\<exists>w ds. decimal_text h = w @ CHR ''.'' # ds \<and> (length ds = 1 \<or> length ds = 2) \<and>
           set w \<subseteq> set ''-0123456789'' \<and> set ds \<subseteq> set ''0123456789''"
proof -
  define sgn where "sgn = (if h < 0 then ''-'' else '''')"
  define ip where "ip = py_str_nat (nat \<bar>h\<bar> div 100)"
  define ds where "ds = (if nat \<bar>h\<bar> mod 100 mod 10 = 0
      then [digit_char (nat \<bar>h\<bar> mod 100 div 10)]
      else [digit_char (nat \<bar>h\<bar> mod 100 div 10), digit_char (nat \<bar>h\<bar> mod 100 mod 10)])"
  have eq: "decimal_text h = (sgn @ ip) @ CHR ''.'' # ds"
    by (simp add: decimal_text_def Let_def sgn_def ip_def ds_def)
  have len: "length ds = 1 \<or> length ds = 2"
    by (simp add: ds_def)
  have s1: "set sgn \<subseteq> set ''-0123456789''"
    by (cases "h < 0") (simp_all add: sgn_def)
  have s2: "set ip \<subseteq> set ''-0123456789''"
    unfolding ip_def by (rule subset_trans [OF py_str_nat_digits digits_signed])
  have sw: "set (sgn @ ip) \<subseteq> set ''-0123456789''"
    using s1 s2 by (simp only: set_append Un_subset_iff)
  have sd: "set ds \<subseteq> set ''0123456789''"
    using digit_char_digit [of "nat \<bar>h\<bar> mod 100 div 10"]
      digit_char_digit [of "nat \<bar>h\<bar> mod 100 mod 10"]
    by (cases "nat \<bar>h\<bar> mod 100 mod 10 = 0") (simp_all add: ds_def)
  show ?thesis using eq len sw sd by blast
qed

lemma decimal_text_no_comma: "CHR '','' \<notin> set (decimal_text h)"
proof -
  obtain w ds where f: "decimal_text h = w @ CHR ''.'' # ds"
      "set w \<subseteq> set ''-0123456789''" "set ds \<subseteq> set ''0123456789''"
    using decimal_text_form [of h] by blast
  have c1: "CHR '','' \<notin> set ''-0123456789''" by simp
  have c2: "CHR '','' \<notin> set ''0123456789''" by simp
  have "CHR '','' \<notin> set w" using f(2) c1 by blast
  moreover have "CHR '','' \<notin> set ds" using f(3) c2 by blast
  ultimately show ?thesis by (simp add: f(1))
qed

lemma init_mean_cells:
  "map (take 3) (map row_cells (rows (platform_stats (ReportGenerator_init m d)))) =
     map (\<lambda>k. [k,
                py_str_float (agg_mean m (map order_value (filter (\<lambda>r. platform r = Some k) d))),
                py_str_float (agg_mean m (map delivery_time (filter (\<lambda>r. platform r = Some k) d)))])
         (groupby_keys platform d)"
  unfolding ReportGenerator_init_def by (simp add: row_cells_def upcast_def Let_def comp_def)

text \<open>
  C4, as the spec states it: every currency or time value of the platform-performance
  table is rendered with thousands separators and exactly two decimals (a mean of 1234.5
  as \<^verbatim>\<open>1,234.50\<close>) and every count with no decimals. It is not: for the small
  dataset the mean order value 1234.5 of Zepto is rendered as \<^verbatim>\<open>1234.5\<close>, the mean
  delivery time 25 of Swiggy as \<^verbatim>\<open>25.0\<close>, and the order counts 1 and 2 as
  \<^verbatim>\<open>1.0\<close> and \<^verbatim>\<open>2.0\<close>, in both formats.
\<close>

theorem number_format_counterexample:
  "pdf_tables (pdf_section ''Platform Performance Metrics''
     (pdf_at (files_after (generate_pdf demo_now demo_figures demo_generator Map.empty))
        ''output/reports/ecommerce_analysis_report_20250309_140559.pdf'')) =
     [[[''Platform'', ''Avg Order Value'', ''Avg Delivery Time'', ''Total Orders''],
       [''Swiggy'', ''95.5'', ''25.0'', ''1.0''],
       [''Zepto'', ''1234.5'', ''30.5'', ''2.0'']]] \<and>
   docx_tables (docx_section ''Platform Performance Metrics''
     (docx_at (files_after (generate_word demo_now demo_figures demo_generator Map.empty))
        ''output/reports/ecommerce_analysis_report_20250309_140559.docx'')) =
     [[[''Platform'', ''Avg Order Value'', ''Avg Delivery Time'', ''Total Orders''],
       [''Swiggy'', ''95.5'', ''25.0'', ''1.0''],
       [''Zepto'', ''1234.5'', ''30.5'', ''2.0'']]] \<and>
   rows (platform_stats demo_generator) =
     [(''Swiggy'', [PyFloat (Hundredths 9550), PyFloat (Hundredths 2500), PyInt 1]),
      (''Zepto'', [PyFloat (Hundredths 123450), PyFloat (Hundredths 3050), PyInt 2])]"
  by (simp add: demo_pdf_table demo_word_table demo_stats)

text \<open>
  C4, amended: every mean value of the platform-performance table, that is the Avg Order
  Value and the Avg Delivery Time cell of each platform's row (either format), is rendered
  by \<^verbatim>\<open>str\<close> of the float64 value of the row: the mean of the values present in the
  group, rounded to two decimals, and NaN when the group has no value. For a finite value
  below \<open>10^13\<close> in magnitude that text is the digits of the value with no thousands
  separator, a point, and one or two decimals, so a mean of 1234.5 is rendered as
  \<^verbatim>\<open>1234.5\<close>; NaN is rendered as \<^verbatim>\<open>nan\<close>. No locale enters the rendering. The
  statement is about the first three cells of a row; it says nothing on the Total Orders
  cell.
\<close>

theorem mean_cells_plain_str:
  "(outcome (generate_pdf now figures (ReportGenerator_init m d\<lparr>image_paths := ps\<rparr>) files) = Inr p \<longrightarrow>
      map (\<lambda>tbl. map (take 3) (tl tbl))
        (pdf_tables (pdf_section ''Platform Performance Metrics''
          (pdf_at (files_after
             (generate_pdf now figures (ReportGenerator_init m d\<lparr>image_paths := ps\<rparr>) files)) p))) =
        [map (\<lambda>k. [k,
                py_str_float (agg_mean m (map order_value (filter (\<lambda>r. platform r = Some k) d))),
                py_str_float (agg_mean m (map delivery_time (filter (\<lambda>r. platform r = Some k) d)))])
           (groupby_keys platform d)]) \<and>
   (outcome (generate_word now figures (ReportGenerator_init m d\<lparr>image_paths := ps\<rparr>) files) = Inr p \<longrightarrow>
      map (\<lambda>tbl. map (take 3) (tl tbl))
        (docx_tables (docx_section ''Platform Performance Metrics''
          (docx_at (files_after
             (generate_word now figures (ReportGenerator_init m d\<lparr>image_paths := ps\<rparr>) files)) p))) =
        [map (\<lambda>k. [k,
                py_str_float (agg_mean m (map order_value (filter (\<lambda>r. platform r = Some k) d))),
                py_str_float (agg_mean m (map delivery_time (filter (\<lambda>r. platform r = Some k) d)))])
           (groupby_keys platform d)]) \<and>
   (\<forall>h. \<bar>h\<bar> < 10 ^ 15 \<longrightarrow>
      CHR '','' \<notin> set (py_str_float (Hundredths h)) \<and>
      (\<exists>w ds. py_str_float (Hundredths h) = w @ CHR ''.'' # ds \<and>
               (length ds = 1 \<or> length ds = 2) \<and>
               set w \<subseteq> set ''-0123456789'' \<and> set ds \<subseteq> set ''0123456789'')) \<and>
   py_str_float NaN = ''nan'' \<and>
   py_str_float (Hundredths 123450) = ''1234.5''"
proof -
  let ?self = "ReportGenerator_init m d\<lparr>image_paths := ps\<rparr>"
  let ?rows = "map (\<lambda>k. [k,
                py_str_float (agg_mean m (map order_value (filter (\<lambda>r. platform r = Some k) d))),
                py_str_float (agg_mean m (map delivery_time (filter (\<lambda>r. platform r = Some k) d)))])
           (groupby_keys platform d)"
  have ready: "stats_ready ?self"
    by (simp add: init_ready)
  have wf: "wf_frame (platform_stats ?self)"
    using ready by (simp add: stats_ready_def)
  have cells: "map (take 3) (map row_cells (rows (platform_stats ?self))) = ?rows"
    using init_mean_cells [of m d] by simp
  have pdf: "map (\<lambda>tbl. map (take 3) (tl tbl))
        (pdf_tables (pdf_section ''Platform Performance Metrics''
          (pdf_at (files_after (generate_pdf now figures ?self files)) p))) = [?rows]"
    if "outcome (generate_pdf now figures ?self files) = Inr p"
  proof -
    have ok: "list_all renders figures" using that by (rule pdf_success)
    have p: "p = pdf_filename now"
      using that by (simp add: generate_pdf_ok [OF wf ok] outcome_def)
    have "map (\<lambda>tbl. map (take 3) (tl tbl))
        (pdf_tables (pdf_section ''Platform Performance Metrics''
          (pdf_at (files_after (generate_pdf now figures ?self files)) p))) =
        [map (take 3) (map row_cells (rows (platform_stats ?self)))]"
      unfolding p generate_pdf_ok [OF wf ok] files_after_def
      by (simp add: pdf_at_def pdf_section_def pdf_sections_story section_body_def)
    then show ?thesis by (simp only: cells)
  qed
  have word: "map (\<lambda>tbl. map (take 3) (tl tbl))
        (docx_tables (docx_section ''Platform Performance Metrics''
          (docx_at (files_after (generate_word now figures ?self files)) p))) = [?rows]"
    if "outcome (generate_word now figures ?self files) = Inr p"
  proof -
    have ok: "list_all renders figures" using that by (rule word_success)
    have p: "p = word_filename now"
      using that by (simp add: generate_word_ok [OF ready ok] outcome_def)
    have "map (\<lambda>tbl. map (take 3) (tl tbl))
        (docx_tables (docx_section ''Platform Performance Metrics''
          (docx_at (files_after (generate_word now figures ?self files)) p))) =
        [map (take 3) (map row_cells (rows (platform_stats ?self)))]"
      unfolding p generate_word_ok [OF ready ok] files_after_def
      by (simp add: docx_at_def docx_section_def docx_sections_body section_body_def)
    then show ?thesis by (simp only: cells)
  qed
  have form: "\<forall>h. \<bar>h\<bar> < 10 ^ 15 \<longrightarrow>
      CHR '','' \<notin> set (py_str_float (Hundredths h)) \<and>
      (\<exists>w ds. py_str_float (Hundredths h) = w @ CHR ''.'' # ds \<and>
               (length ds = 1 \<or> length ds = 2) \<and>
               set w \<subseteq> set ''-0123456789'' \<and> set ds \<subseteq> set ''0123456789'')"
  proof (intro allI impI conjI)
    fix h :: int
    show "CHR '','' \<notin> set (py_str_float (Hundredths h))"
      by (simp only: py_str_float.simps decimal_text_no_comma not_False_eq_True)
    show "\<exists>w ds. py_str_float (Hundredths h) = w @ CHR ''.'' # ds \<and>
               (length ds = 1 \<or> length ds = 2) \<and>
               set w \<subseteq> set ''-0123456789'' \<and> set ds \<subseteq> set ''0123456789''"
      unfolding py_str_float.simps by (rule decimal_text_form)
  qed
  have nan: "py_str_float NaN = ''nan''"
    by simp
  have ex1: "py_str_float (Hundredths 123450) = ''1234.5''"
    by (simp add: decimal_text_def py_str_nat.simps digit_char_def)
  show ?thesis
  proof (intro conjI)
    show "outcome (generate_pdf now figures ?self files) = Inr p \<longrightarrow>
      map (\<lambda>tbl. map (take 3) (tl tbl))
        (pdf_tables (pdf_section ''Platform Performance Metrics''
          (pdf_at (files_after (generate_pdf now figures ?self files)) p))) = [?rows]"
      using pdf by (rule impI)
    show "outcome (generate_word now figures ?self files) = Inr p \<longrightarrow>
      map (\<lambda>tbl. map (take 3) (tl tbl))
        (docx_tables (docx_section ''Platform Performance Metrics''
          (docx_at (files_after (generate_word now figures ?self files)) p))) = [?rows]"
      using word by (rule impI)
  qed (rule form nan ex1)+
qed


theorem mean_cells_plain_str_witness:
  "outcome (generate_pdf demo_now demo_figures
      (ReportGenerator_init demo_mean demo_orders\<lparr>image_paths := []\<rparr>) Map.empty) =
     Inr ''output/reports/ecommerce_analysis_report_20250309_140559.pdf'' \<and>
   map (\<lambda>tbl. map (take 3) (tl tbl))
     (pdf_tables (pdf_section ''Platform Performance Metrics''
       (pdf_at (files_after (generate_pdf demo_now demo_figures
            (ReportGenerator_init demo_mean demo_orders\<lparr>image_paths := []\<rparr>) Map.empty))
          ''output/reports/ecommerce_analysis_report_20250309_140559.pdf''))) =
     [[[''Swiggy'', ''95.5'', ''25.0''], [''Zepto'', ''1234.5'', ''30.5'']]] \<and>
   outcome (generate_word demo_now demo_figures
      (ReportGenerator_init demo_mean demo_orders\<lparr>image_paths := []\<rparr>) Map.empty) =
     Inr ''output/reports/ecommerce_analysis_report_20250309_140559.docx'' \<and>
   map (\<lambda>tbl. map (take 3) (tl tbl))
     (docx_tables (docx_section ''Platform Performance Metrics''
       (docx_at (files_after (generate_word demo_now demo_figures
            (ReportGenerator_init demo_mean demo_orders\<lparr>image_paths := []\<rparr>) Map.empty))
          ''output/reports/ecommerce_analysis_report_20250309_140559.docx''))) =
     [[[''Swiggy'', ''95.5'', ''25.0''], [''Zepto'', ''1234.5'', ''30.5'']]] \<and>
   \<bar>123450 :: int\<bar> < 10 ^ 15 \<and>
   CHR '','' \<notin> set (py_str_float (Hundredths 123450))"
proof -
  have r: "stats_ready (ReportGenerator_init demo_mean demo_orders\<lparr>image_paths := []\<rparr>)"
    by (simp add: init_ready)
  have wf: "wf_frame (platform_stats (ReportGenerator_init demo_mean demo_orders\<lparr>image_paths := []\<rparr>))"
    using r by (simp add: stats_ready_def)
  have h1: "outcome (generate_pdf demo_now demo_figures
      (ReportGenerator_init demo_mean demo_orders\<lparr>image_paths := []\<rparr>) Map.empty) =
     Inr ''output/reports/ecommerce_analysis_report_20250309_140559.pdf''"
    by (simp add: generate_pdf_ok [OF wf demo_renders] outcome_def demo_pdf_filename)
  have h2: "outcome (generate_word demo_now demo_figures
      (ReportGenerator_init demo_mean demo_orders\<lparr>image_paths := []\<rparr>) Map.empty) =
     Inr ''output/reports/ecommerce_analysis_report_20250309_140559.docx''"
    by (simp add: generate_word_ok [OF r demo_renders] outcome_def demo_word_filename)
  have rows: "map (\<lambda>k. [k,
                py_str_float (agg_mean demo_mean (map order_value (filter (\<lambda>r. platform r = Some k) demo_orders))),
                py_str_float (agg_mean demo_mean (map delivery_time (filter (\<lambda>r. platform r = Some k) demo_orders)))])
           (groupby_keys platform demo_orders) =
        [[''Swiggy'', ''95.5'', ''25.0''], [''Zepto'', ''1234.5'', ''30.5'']]"
    by (simp add: groupby_keys_def demo_orders_def demo_mean_def agg_mean_def decimal_text_def
        py_str_nat.simps digit_char_def)
  have small: "\<bar>123450 :: int\<bar> < 10 ^ 15"
    by simp
  note T = mean_cells_plain_str [where now = demo_now and figures = demo_figures
        and m = demo_mean and d = demo_orders and ps = "[]" and files = Map.empty]
  have a: "map (\<lambda>tbl. map (take 3) (tl tbl))
     (pdf_tables (pdf_section ''Platform Performance Metrics''
       (pdf_at (files_after (generate_pdf demo_now demo_figures
            (ReportGenerator_init demo_mean demo_orders\<lparr>image_paths := []\<rparr>) Map.empty))
          ''output/reports/ecommerce_analysis_report_20250309_140559.pdf''))) =
     [[[''Swiggy'', ''95.5'', ''25.0''], [''Zepto'', ''1234.5'', ''30.5'']]]"
    using T [where p = "''output/reports/ecommerce_analysis_report_20250309_140559.pdf''",
        THEN conjunct1, THEN mp, OF h1]
    by (simp only: rows)
  have b: "map (\<lambda>tbl. map (take 3) (tl tbl))
     (docx_tables (docx_section ''Platform Performance Metrics''
       (docx_at (files_after (generate_word demo_now demo_figures
            (ReportGenerator_init demo_mean demo_orders\<lparr>image_paths := []\<rparr>) Map.empty))
          ''output/reports/ecommerce_analysis_report_20250309_140559.docx''))) =
     [[[''Swiggy'', ''95.5'', ''25.0''], [''Zepto'', ''1234.5'', ''30.5'']]]"
    using T [where p = "''output/reports/ecommerce_analysis_report_20250309_140559.docx''",
        THEN conjunct2, THEN conjunct1, THEN mp, OF h2]
    by (simp only: rows)
  have c: "CHR '','' \<notin> set (py_str_float (Hundredths 123450))"
    using T [where p = "[]", THEN conjunct2, THEN conjunct2, THEN conjunct1, THEN spec,
        THEN mp, OF small]
    by (rule conjunct1)
  show ?thesis
    using h1 h2 a b small c by (intro conjI)
qed

lemma image_flowables_blocks:
  "image_flowables ps = concat (map (\<lambda>img_path. [ImageF img_path 450 300, Spacer 1 20]) ps)"
  by (induction ps) simp_all

lemma picture_blocks_blocks:
  "picture_blocks ps =
     concat (map (\<lambda>img_path. [Picture img_path 6, DocxParagraph [] None ''Normal'']) ps)"
  by (induction ps) simp_all

lemma demo_paths:
  "map (image_path \<circ> fst) demo_figures =
     [''output/temp/scatter_plot.png'', ''output/temp/boxplot.png'']"
  by (simp add: demo_figures_def image_path_cases)

text \<open>
  C7, as the spec states it: the Visualizations section holds one block per figure, in the
  order of the image paths, and each image is preceded by the title of its chart. The
  titles are not there: for the two figures of the example, titled
  \<^verbatim>\<open>Order Value vs Delivery Time\<close> and \<^verbatim>\<open>Delivery Time by Platform\<close>, the section
  is two images, each followed by a spacer (PDF) or an empty paragraph (Word), and
  nothing else.
\<close>

theorem chart_titles_counterexample:
  "map (fig_title \<circ> snd) demo_figures =
     [''Order Value vs Delivery Time'', ''Delivery Time by Platform''] \<and>
   pdf_section ''Visualizations''
     (pdf_at (files_after (generate_pdf demo_now demo_figures demo_generator Map.empty))
        ''output/reports/ecommerce_analysis_report_20250309_140559.pdf'') =
     [ImageF ''output/temp/scatter_plot.png'' 450 300, Spacer 1 20,
      ImageF ''output/temp/boxplot.png'' 450 300, Spacer 1 20] \<and>
   docx_section ''Visualizations''
     (docx_at (files_after (generate_word demo_now demo_figures demo_generator Map.empty))
        ''output/reports/ecommerce_analysis_report_20250309_140559.docx'') =
     [Picture ''output/temp/scatter_plot.png'' 6, DocxParagraph [] None ''Normal'',
      Picture ''output/temp/boxplot.png'' 6, DocxParagraph [] None ''Normal'']"
proof -
  have wf: "wf_frame (platform_stats demo_generator)"
    using demo_ready by (simp add: stats_ready_def)
  have t: "map (fig_title \<circ> snd) demo_figures =
     [''Order Value vs Delivery Time'', ''Delivery Time by Platform'']"
    by (simp add: demo_figures_def)
  have a: "pdf_section ''Visualizations''
     (pdf_at (files_after (generate_pdf demo_now demo_figures demo_generator Map.empty))
        ''output/reports/ecommerce_analysis_report_20250309_140559.pdf'') =
     [ImageF ''output/temp/scatter_plot.png'' 450 300, Spacer 1 20,
      ImageF ''output/temp/boxplot.png'' 450 300, Spacer 1 20]"
    unfolding generate_pdf_ok [OF wf demo_renders] files_after_def demo_pdf_filename
    by (simp add: pdf_at_def pdf_section_def pdf_sections_story section_body_def)
      (simp add: demo_paths)
  have b: "docx_section ''Visualizations''
     (docx_at (files_after (generate_word demo_now demo_figures demo_generator Map.empty))
        ''output/reports/ecommerce_analysis_report_20250309_140559.docx'') =
     [Picture ''output/temp/scatter_plot.png'' 6, DocxParagraph [] None ''Normal'',
      Picture ''output/temp/boxplot.png'' 6, DocxParagraph [] None ''Normal'']"
    unfolding generate_word_ok [OF demo_ready demo_renders] files_after_def demo_word_filename
    by (simp add: docx_at_def docx_section_def docx_sections_body section_body_def)
      (simp add: demo_paths)
  show ?thesis using t a b by (intro conjI)
qed

text \<open>
  C7, amended: in the generated document (either format) the Visualizations section is,
  for each image path stored in step 1 and in that order (one path per figure, in the
  order of the mapping), the image at its fixed size followed by a spacer (PDF), or the
  picture followed by an empty paragraph (Word), and nothing else: no chart title is
  written before an image.
\<close>

theorem visualization_blocks:
  assumes "stats_ready self"
  shows "(outcome (generate_pdf now figures self files) = Inr p \<longrightarrow>
            pdf_section ''Visualizations''
              (pdf_at (files_after (generate_pdf now figures self files)) p) =
              concat (map (\<lambda>img_path. [ImageF img_path 450 300, Spacer 1 20])
                (image_paths (self_after (generate_pdf now figures self files)))) \<and>
            image_paths (self_after (generate_pdf now figures self files)) =
              map (image_path \<circ> fst) figures) \<and>
         (outcome (generate_word now figures self files) = Inr p \<longrightarrow>
            docx_section ''Visualizations''
              (docx_at (files_after (generate_word now figures self files)) p) =
              concat (map (\<lambda>img_path. [Picture img_path 6, DocxParagraph [] None ''Normal''])
                (image_paths (self_after (generate_word now figures self files)))) \<and>
            image_paths (self_after (generate_word now figures self files)) =
              map (image_path \<circ> fst) figures)"
proof -
  have wf: "wf_frame (platform_stats self)"
    using assms by (simp add: stats_ready_def)
  have pdf: "pdf_section ''Visualizations''
              (pdf_at (files_after (generate_pdf now figures self files)) p) =
              concat (map (\<lambda>img_path. [ImageF img_path 450 300, Spacer 1 20])
                (image_paths (self_after (generate_pdf now figures self files)))) \<and>
            image_paths (self_after (generate_pdf now figures self files)) =
              map (image_path \<circ> fst) figures"
    if "outcome (generate_pdf now figures self files) = Inr p"
  proof -
    have ok: "list_all renders figures" using that by (rule pdf_success)
    have p: "p = pdf_filename now"
      using that by (simp add: generate_pdf_ok [OF wf ok] outcome_def)
    show ?thesis
      unfolding p generate_pdf_ok [OF wf ok] files_after_def self_after_def
      by (simp add: pdf_at_def pdf_section_def pdf_sections_story section_body_def
          image_flowables_blocks)
  qed
  have word: "docx_section ''Visualizations''
              (docx_at (files_after (generate_word now figures self files)) p) =
              concat (map (\<lambda>img_path. [Picture img_path 6, DocxParagraph [] None ''Normal''])
                (image_paths (self_after (generate_word now figures self files)))) \<and>
            image_paths (self_after (generate_word now figures self files)) =
              map (image_path \<circ> fst) figures"
    if "outcome (generate_word now figures self files) = Inr p"
  proof -
    have ok: "list_all renders figures" using that by (rule word_success)
    have p: "p = word_filename now"
      using that by (simp add: generate_word_ok [OF assms ok] outcome_def)
    show ?thesis
      unfolding p generate_word_ok [OF assms ok] files_after_def self_after_def
      by (simp add: docx_at_def docx_section_def docx_sections_body section_body_def)
        (simp add: picture_blocks_blocks)
  qed
  show ?thesis using pdf word by blast
qed

theorem visualization_blocks_witness:
  "stats_ready demo_generator \<and>
   outcome (generate_pdf demo_now demo_figures demo_generator Map.empty) =
     Inr ''output/reports/ecommerce_analysis_report_20250309_140559.pdf'' \<and>
   image_paths (self_after (generate_pdf demo_now demo_figures demo_generator Map.empty)) =
     [''output/temp/scatter_plot.png'', ''output/temp/boxplot.png''] \<and>
   pdf_section ''Visualizations''
     (pdf_at (files_after (generate_pdf demo_now demo_figures demo_generator Map.empty))
        ''output/reports/ecommerce_analysis_report_20250309_140559.pdf'') =
     [ImageF ''output/temp/scatter_plot.png'' 450 300, Spacer 1 20,
      ImageF ''output/temp/boxplot.png'' 450 300, Spacer 1 20] \<and>
   outcome (generate_word demo_now demo_figures demo_generator Map.empty) =
     Inr ''output/reports/ecommerce_analysis_report_20250309_140559.docx'' \<and>
   image_paths (self_after (generate_word demo_now demo_figures demo_generator Map.empty)) =
     [''output/temp/scatter_plot.png'', ''output/temp/boxplot.png''] \<and>
   docx_section ''Visualizations''
     (docx_at (files_after (generate_word demo_now demo_figures demo_generator Map.empty))
        ''output/reports/ecommerce_analysis_report_20250309_140559.docx'') =
     [Picture ''output/temp/scatter_plot.png'' 6, DocxParagraph [] None ''Normal'',
      Picture ''output/temp/boxplot.png'' 6, DocxParagraph [] None ''Normal'']"
proof -
  note a = visualization_blocks [OF demo_ready, THEN conjunct1, THEN mp, OF demo_pdf_outcome]
  note b = visualization_blocks [OF demo_ready, THEN conjunct2, THEN mp, OF demo_word_outcome]
  have pa: "image_paths (self_after (generate_pdf demo_now demo_figures demo_generator Map.empty)) =
     [''output/temp/scatter_plot.png'', ''output/temp/boxplot.png'']"
    using a [THEN conjunct2] by (simp only: demo_paths)
  have pb: "image_paths (self_after (generate_word demo_now demo_figures demo_generator Map.empty)) =
     [''output/temp/scatter_plot.png'', ''output/temp/boxplot.png'']"
    using b [THEN conjunct2] by (simp only: demo_paths)
  have sa: "pdf_section ''Visualizations''
     (pdf_at (files_after (generate_pdf demo_now demo_figures demo_generator Map.empty))
        ''output/reports/ecommerce_analysis_report_20250309_140559.pdf'') =
     [ImageF ''output/temp/scatter_plot.png'' 450 300, Spacer 1 20,
      ImageF ''output/temp/boxplot.png'' 450 300, Spacer 1 20]"
    using a [THEN conjunct1] by (simp add: pa)
  have sb: "docx_section ''Visualizations''
     (docx_at (files_after (generate_word demo_now demo_figures demo_generator Map.empty))
        ''output/reports/ecommerce_analysis_report_20250309_140559.docx'') =
     [Picture ''output/temp/scatter_plot.png'' 6, DocxParagraph [] None ''Normal'',
      Picture ''output/temp/boxplot.png'' 6, DocxParagraph [] None ''Normal'']"
    using b [THEN conjunct1] by (simp add: pb)
  show ?thesis
    using demo_ready demo_pdf_outcome demo_word_outcome pa pb sa sb by (intro conjI)
qed

lemma other_renders: "list_all renders other_figures"
  by (simp add: other_figures_def renders_def)

lemma later_pdf_filename:
  "pdf_filename later_now = ''output/reports/ecommerce_analysis_report_20250309_140600.pdf''"
  by (simp add: pdf_filename_def strftime_def pad4_def pad2_def digit_char_def later_now_def)

lemma demo_wf: "wf_frame (platform_stats demo_generator)"
  using demo_ready by (simp add: stats_ready_def)

lemma first_call_closed:
  "first_call =
     (Inr ''output/reports/ecommerce_analysis_report_20250309_140559.pdf'',
      demo_generator\<lparr>image_paths := map (image_path \<circ> fst) demo_figures\<rparr>,
      (write_images demo_figures Map.empty)
        (''output/reports/ecommerce_analysis_report_20250309_140559.pdf'' \<mapsto>
           PdfFile
             (pdf_story (demo_generator\<lparr>image_paths := map (image_path \<circ> fst) demo_figures\<rparr>)
                ((''Platform'' # columns (platform_stats demo_generator)) #
                 map row_cells (rows (platform_stats demo_generator))))
             (map (\<lambda>nf. the (fig_png (snd nf))) demo_figures)))"
proof -
  have d: "distinct (map fst demo_figures)"
    by (simp add: demo_figures_def)
  show ?thesis
    unfolding first_call_def generate_pdf_ok [OF demo_wf demo_renders] demo_pdf_filename
      png_at_written [OF d]
    by simp
qed

lemma pdf_filename_inj: "pdf_filename a = pdf_filename b \<longleftrightarrow> strftime a = strftime b"
  by (simp add: pdf_filename_def)

lemma dom_write_images:
  "dom (write_images figures files) = dom files \<union> image_path ` fst ` set figures"
proof (induction figures arbitrary: files)
  case Nil
  then show ?case by simp
next
  case (Cons nf figures)
  obtain name fig where nf: "nf = (name, fig)" by (cases nf)
  have "dom (files(image_path name \<mapsto> PngFile (the (fig_png fig)))) =
        insert (image_path name) (dom files)"
    by (auto simp: dom_def)
  then show ?case
    by (simp only: nf write_images.simps Cons.IH) auto
qed

lemma later_differs: "strftime later_now \<noteq> strftime demo_now"
  by (simp add: strftime_def pad4_def pad2_def digit_char_def later_now_def demo_now_def)

lemma first_call_wf: "wf_frame (platform_stats (self_after first_call))"
  using demo_wf by (simp add: first_call_closed self_after_def)

text \<open>
  C5, as the spec states it: when \<^verbatim>\<open>generate_pdf\<close> is called twice within the same
  clock second on one instance, the first report is not overwritten by the second call.
  It is: both calls return the same path, and after the second call the file at that
  path holds the second call's image, not the two images of the first report.
\<close>

theorem same_second_counterexample:
  "outcome first_call = Inr ''output/reports/ecommerce_analysis_report_20250309_140559.pdf'' \<and>
   outcome second_call = Inr ''output/reports/ecommerce_analysis_report_20250309_140559.pdf'' \<and>
   images_at (files_after first_call)
     ''output/reports/ecommerce_analysis_report_20250309_140559.pdf'' = [''PNG-1'', ''PNG-2''] \<and>
   images_at (files_after second_call)
     ''output/reports/ecommerce_analysis_report_20250309_140559.pdf'' = [''PNG-3''] \<and>
   image_sources (pdf_at (files_after first_call)
     ''output/reports/ecommerce_analysis_report_20250309_140559.pdf'') =
     [''output/temp/scatter_plot.png'', ''output/temp/boxplot.png''] \<and>
   image_sources (pdf_at (files_after second_call)
     ''output/reports/ecommerce_analysis_report_20250309_140559.pdf'') =
     [''output/temp/category_times.png'']"
proof -
  have d: "distinct (map fst other_figures)"
    by (simp add: other_figures_def)
  have wf: "wf_frame (platform_stats (self_after first_call))"
    using demo_wf by (simp add: first_call_closed self_after_def)
  have paths: "map (image_path \<circ> fst) other_figures = [''output/temp/category_times.png'']"
    by (simp add: other_figures_def image_path_cases)
  have pngs: "map (\<lambda>nf. the (fig_png (snd nf))) other_figures = [''PNG-3'']"
    by (simp add: other_figures_def)
  have first: "outcome first_call = Inr ''output/reports/ecommerce_analysis_report_20250309_140559.pdf''"
    "images_at (files_after first_call)
       ''output/reports/ecommerce_analysis_report_20250309_140559.pdf'' = [''PNG-1'', ''PNG-2'']"
    "image_sources (pdf_at (files_after first_call)
       ''output/reports/ecommerce_analysis_report_20250309_140559.pdf'') =
       [''output/temp/scatter_plot.png'', ''output/temp/boxplot.png'']"
    by (simp_all add: first_call_closed outcome_def files_after_def images_at_def pdf_at_def
        image_sources_story demo_paths) (simp add: demo_figures_def)
  have second: "outcome second_call = Inr ''output/reports/ecommerce_analysis_report_20250309_140559.pdf''"
    "images_at (files_after second_call)
       ''output/reports/ecommerce_analysis_report_20250309_140559.pdf'' = [''PNG-3'']"
    "image_sources (pdf_at (files_after second_call)
       ''output/reports/ecommerce_analysis_report_20250309_140559.pdf'') =
       [''output/temp/category_times.png'']"
    unfolding second_call_def generate_pdf_ok [OF wf other_renders] demo_pdf_filename
      png_at_written [OF d]
    by (simp_all add: outcome_def files_after_def images_at_def pdf_at_def image_sources_story
        paths pngs)
  show ?thesis using first second by (intro conjI)
qed

text \<open>
  C5, amended: the name of the report depends on the clock reading of the call only, to
  the second. When \<^verbatim>\<open>generate_pdf\<close> is called twice on one instance and the two
  timestamps are the same, both calls return the same path and the file there is, after
  the second call, the second call's document: what that call writes from an empty file
  system. When the timestamps differ, the paths differ and the first report is, after
  the second call, as the first call wrote it.
\<close>

theorem same_second_overwrites:
  assumes "stats_ready self"
    and "outcome (generate_pdf now1 figures1 self files) = Inr p1"
    and "outcome (generate_pdf now2 figures2
           (self_after (generate_pdf now1 figures1 self files))
           (files_after (generate_pdf now1 figures1 self files))) = Inr p2"
  shows "(strftime now2 = strftime now1 \<longrightarrow>
            p2 = p1 \<and>
            files_after (generate_pdf now2 figures2
                (self_after (generate_pdf now1 figures1 self files))
                (files_after (generate_pdf now1 figures1 self files))) p1 =
              files_after (generate_pdf now2 figures2 self Map.empty) p1) \<and>
         (strftime now2 \<noteq> strftime now1 \<longrightarrow>
            p2 \<noteq> p1 \<and>
            files_after (generate_pdf now2 figures2
                (self_after (generate_pdf now1 figures1 self files))
                (files_after (generate_pdf now1 figures1 self files))) p1 =
              files_after (generate_pdf now1 figures1 self files) p1)"
proof -
  define files1 where "files1 = files_after (generate_pdf now1 figures1 self files)"
  define self1 where "self1 = self\<lparr>image_paths := map (image_path \<circ> fst) figures1\<rparr>"
  have wf: "wf_frame (platform_stats self)"
    using assms(1) by (simp add: stats_ready_def)
  have ok1: "list_all renders figures1"
    using assms(2) by (rule pdf_success)
  have s1: "self_after (generate_pdf now1 figures1 self files) = self1"
    by (simp add: generate_pdf_ok [OF wf ok1] self_after_def self1_def)
  have a3: "outcome (generate_pdf now2 figures2 self1 files1) = Inr p2"
    using assms(3) by (simp only: s1 files1_def)
  have ok2: "list_all renders figures2"
    using a3 by (rule pdf_success)
  have wf1: "wf_frame (platform_stats self1)"
    using wf by (simp add: self1_def)
  have p1: "p1 = pdf_filename now1"
    using assms(2) by (simp add: generate_pdf_ok [OF wf ok1] outcome_def)
  have p2: "p2 = pdf_filename now2"
    using a3 by (simp add: generate_pdf_ok [OF wf1 ok2] outcome_def)
  have np: "\<not> suffix ''.png'' (pdf_filename now1)"
    by (rule pdf_filename_not_png)
  have imgs: "map (png_at (write_images figures2 files1)) (map (image_path \<circ> fst) figures2) =
      map (png_at (write_images figures2 Map.empty)) (map (image_path \<circ> fst) figures2)"
    by (rule png_at_same)
  have upd: "self1\<lparr>image_paths := ps\<rparr> = self\<lparr>image_paths := ps\<rparr>" for ps
    by (simp add: self1_def)
  have cols: "platform_stats self1 = platform_stats self"
    by (simp add: self1_def)
  have same: "files_after (generate_pdf now2 figures2 self1 files1) (pdf_filename now1) =
              files_after (generate_pdf now2 figures2 self Map.empty) (pdf_filename now1)"
    if "strftime now2 = strftime now1"
  proof -
    have f: "pdf_filename now2 = pdf_filename now1"
      using that by (simp add: pdf_filename_inj)
    show ?thesis
      by (simp only: generate_pdf_ok [OF wf1 ok2] generate_pdf_ok [OF wf ok2] files_after_def f
          imgs upd cols snd_conv fun_upd_same)
  qed
  have kept: "files_after (generate_pdf now2 figures2 self1 files1) (pdf_filename now1) =
              files1 (pdf_filename now1)"
    if "strftime now2 \<noteq> strftime now1"
  proof -
    have f: "pdf_filename now1 \<noteq> pdf_filename now2"
      using that by (simp add: pdf_filename_inj)
    show ?thesis
      using f by (simp add: generate_pdf_ok [OF wf1 ok2] files_after_def
          write_images_not_png [OF np])
  qed
  show ?thesis
    unfolding s1 files1_def [symmetric] unfolding p1 p2
    using same kept by (simp add: pdf_filename_inj)
qed

theorem same_second_overwrites_witness:
  "stats_ready demo_generator \<and>
   outcome first_call = Inr ''output/reports/ecommerce_analysis_report_20250309_140559.pdf'' \<and>
   outcome second_call = Inr ''output/reports/ecommerce_analysis_report_20250309_140559.pdf'' \<and>
   strftime demo_now = strftime demo_now \<and>
   files_after second_call ''output/reports/ecommerce_analysis_report_20250309_140559.pdf'' =
     files_after (generate_pdf demo_now other_figures demo_generator Map.empty)
       ''output/reports/ecommerce_analysis_report_20250309_140559.pdf'' \<and>
   outcome (generate_pdf later_now other_figures (self_after first_call) (files_after first_call)) =
     Inr ''output/reports/ecommerce_analysis_report_20250309_140600.pdf'' \<and>
   strftime later_now \<noteq> strftime demo_now \<and>
   files_after (generate_pdf later_now other_figures (self_after first_call) (files_after first_call))
       ''output/reports/ecommerce_analysis_report_20250309_140559.pdf'' =
     files_after first_call ''output/reports/ecommerce_analysis_report_20250309_140559.pdf''"
proof -
  have h1: "outcome (generate_pdf demo_now demo_figures demo_generator Map.empty) =
      Inr ''output/reports/ecommerce_analysis_report_20250309_140559.pdf''"
    by (rule demo_pdf_outcome)
  have h2: "outcome (generate_pdf demo_now other_figures
        (self_after (generate_pdf demo_now demo_figures demo_generator Map.empty))
        (files_after (generate_pdf demo_now demo_figures demo_generator Map.empty))) =
      Inr ''output/reports/ecommerce_analysis_report_20250309_140559.pdf''"
    using generate_pdf_ok [OF first_call_wf other_renders, of demo_now "files_after first_call"]
    by (simp add: outcome_def demo_pdf_filename first_call_def)
  have h3: "outcome (generate_pdf later_now other_figures
        (self_after (generate_pdf demo_now demo_figures demo_generator Map.empty))
        (files_after (generate_pdf demo_now demo_figures demo_generator Map.empty))) =
      Inr ''output/reports/ecommerce_analysis_report_20250309_140600.pdf''"
    using generate_pdf_ok [OF first_call_wf other_renders, of later_now "files_after first_call"]
    by (simp add: outcome_def later_pdf_filename first_call_def)
  note a = same_second_overwrites [OF demo_ready h1 h2, THEN conjunct1, THEN mp, OF refl,
      THEN conjunct2]
  note b = same_second_overwrites [OF demo_ready h1 h3, THEN conjunct2, THEN mp, OF later_differs,
      THEN conjunct2]
  show ?thesis
    unfolding second_call_def first_call_def
    using demo_ready h1 h2 h3 later_differs a b by (intro conjI refl)
qed

text \<open>
  C8, as the spec states it: every successful call creates exactly one new document file
  in the reports directory. A call that follows another of the same format within the
  same second succeeds and creates no new file: the files after it are the files before
  it.
\<close>

theorem new_file_counterexample:
  "outcome first_call = Inr ''output/reports/ecommerce_analysis_report_20250309_140559.pdf'' \<and>
   outcome repeated_call = Inr ''output/reports/ecommerce_analysis_report_20250309_140559.pdf'' \<and>
   dom (files_after first_call) =
     {''output/reports/ecommerce_analysis_report_20250309_140559.pdf'',
      ''output/temp/scatter_plot.png'', ''output/temp/boxplot.png''} \<and>
   dom (files_after repeated_call) = dom (files_after first_call)"
proof -
  have img: "image_path ` fst ` set demo_figures =
      {''output/temp/scatter_plot.png'', ''output/temp/boxplot.png''}"
    by (simp add: demo_figures_def image_path_cases)
  have d1: "dom (files_after first_call) =
     {''output/reports/ecommerce_analysis_report_20250309_140559.pdf'',
      ''output/temp/scatter_plot.png'', ''output/temp/boxplot.png''}"
    by (simp add: first_call_closed files_after_def dom_write_images img)
  have o1: "outcome first_call = Inr ''output/reports/ecommerce_analysis_report_20250309_140559.pdf''"
    by (simp add: first_call_closed outcome_def)
  note c = generate_pdf_ok [OF first_call_wf demo_renders, of demo_now "files_after first_call"]
  have o2: "outcome repeated_call = Inr ''output/reports/ecommerce_analysis_report_20250309_140559.pdf''"
    by (simp add: repeated_call_def c outcome_def demo_pdf_filename)
  have d2: "dom (files_after repeated_call) = dom (files_after first_call)"
    unfolding repeated_call_def c
    by (simp add: files_after_def [of "(_, _, _)"] dom_write_images img d1 demo_pdf_filename)
      blast
  show ?thesis using o1 o2 d1 d2 by (intro conjI)
qed

text \<open>
  C8, amended: every successful call writes exactly one document file, at
  \<^verbatim>\<open>output/reports/ecommerce_analysis_report_<YYYYMMDD_HHMMSS>\<close> with the extension
  \<^verbatim>\<open>.pdf\<close> or \<^verbatim>\<open>.docx\<close> of the format, and returns this path; the file is there
  when the call returns, and every other file that is not a \<^verbatim>\<open>.png\<close> image is as it
  was before the call. (So the file is new unless a report of the same format and
  second was there, which it replaces.) The timestamp has 15 characters.
\<close>

theorem generate_writes_one_document:
  assumes "stats_ready self"
  shows "(outcome (generate_pdf now figures self files) = Inr p \<longrightarrow>
            p = ''output/reports/ecommerce_analysis_report_'' @ strftime now @ ''.pdf'' \<and>
            (\<exists>story imgs. files_after (generate_pdf now figures self files) p =
                             Some (PdfFile story imgs)) \<and>
            (\<forall>q. q \<noteq> p \<and> \<not> suffix ''.png'' q \<longrightarrow>
                 files_after (generate_pdf now figures self files) q = files q)) \<and>
         (outcome (generate_word now figures self files) = Inr p \<longrightarrow>
            p = ''output/reports/ecommerce_analysis_report_'' @ strftime now @ ''.docx'' \<and>
            (\<exists>body imgs. files_after (generate_word now figures self files) p =
                            Some (DocxFile body imgs)) \<and>
            (\<forall>q. q \<noteq> p \<and> \<not> suffix ''.png'' q \<longrightarrow>
                 files_after (generate_word now figures self files) q = files q)) \<and>
         length (strftime now) = 15"
proof -
  have wf: "wf_frame (platform_stats self)"
    using assms by (simp add: stats_ready_def)
  have pdf: "p = ''output/reports/ecommerce_analysis_report_'' @ strftime now @ ''.pdf'' \<and>
            (\<exists>story imgs. files_after (generate_pdf now figures self files) p =
                             Some (PdfFile story imgs)) \<and>
            (\<forall>q. q \<noteq> p \<and> \<not> suffix ''.png'' q \<longrightarrow>
                 files_after (generate_pdf now figures self files) q = files q)"
    if "outcome (generate_pdf now figures self files) = Inr p"
  proof -
    have ok: "list_all renders figures" using that by (rule pdf_success)
    have p: "p = pdf_filename now"
      using that by (simp add: generate_pdf_ok [OF wf ok] outcome_def)
    show ?thesis
      unfolding p generate_pdf_ok [OF wf ok] files_after_def
      by (simp add: write_images_not_png) (simp add: pdf_filename_def)
  qed
  have word: "p = ''output/reports/ecommerce_analysis_report_'' @ strftime now @ ''.docx'' \<and>
            (\<exists>body imgs. files_after (generate_word now figures self files) p =
                            Some (DocxFile body imgs)) \<and>
            (\<forall>q. q \<noteq> p \<and> \<not> suffix ''.png'' q \<longrightarrow>
                 files_after (generate_word now figures self files) q = files q)"
    if "outcome (generate_word now figures self files) = Inr p"
  proof -
    have ok: "list_all renders figures" using that by (rule word_success)
    have p: "p = word_filename now"
      using that by (simp add: generate_word_ok [OF assms ok] outcome_def)
    show ?thesis
      unfolding p generate_word_ok [OF assms ok] files_after_def
      by (simp add: write_images_not_png) (simp add: word_filename_def)
  qed
  have len: "length (strftime now) = 15"
    by (simp add: strftime_def pad4_def pad2_def)
  show ?thesis using pdf word len by blast
qed

theorem generate_writes_one_document_witness:
  "stats_ready demo_generator \<and>
   outcome (generate_pdf demo_now demo_figures demo_generator Map.empty) =
     Inr ''output/reports/ecommerce_analysis_report_20250309_140559.pdf'' \<and>
   ''output/reports/ecommerce_analysis_report_20250309_140559.pdf'' =
     ''output/reports/ecommerce_analysis_report_'' @ strftime demo_now @ ''.pdf'' \<and>
   (\<exists>story imgs. files_after (generate_pdf demo_now demo_figures demo_generator Map.empty)
       ''output/reports/ecommerce_analysis_report_20250309_140559.pdf'' = Some (PdfFile story imgs)) \<and>
   ''output/reports/older.pdf'' \<noteq> ''output/reports/ecommerce_analysis_report_20250309_140559.pdf'' \<and>
   \<not> suffix ''.png'' ''output/reports/older.pdf'' \<and>
   files_after (generate_pdf demo_now demo_figures demo_generator Map.empty)
     ''output/reports/older.pdf'' = None \<and>
   outcome (generate_word demo_now demo_figures demo_generator Map.empty) =
     Inr ''output/reports/ecommerce_analysis_report_20250309_140559.docx'' \<and>
   (\<exists>body imgs. files_after (generate_word demo_now demo_figures demo_generator Map.empty)
       ''output/reports/ecommerce_analysis_report_20250309_140559.docx'' = Some (DocxFile body imgs)) \<and>
   files_after (generate_word demo_now demo_figures demo_generator Map.empty)
     ''output/reports/older.pdf'' = None"
proof -
  note a = generate_writes_one_document [OF demo_ready, THEN conjunct1, THEN mp, OF demo_pdf_outcome]
  note b = generate_writes_one_document [OF demo_ready, THEN conjunct2, THEN conjunct1, THEN mp,
      OF demo_word_outcome]
  have q1: "''output/reports/older.pdf'' \<noteq> ''output/reports/ecommerce_analysis_report_20250309_140559.pdf''"
    by simp
  have q1': "''output/reports/older.pdf'' \<noteq> ''output/reports/ecommerce_analysis_report_20250309_140559.docx''"
    by simp
  have q2: "\<not> suffix ''.png'' ''output/reports/older.pdf''"
    by (simp add: suffix_def append_eq_Cons_conv)
  have c: "files_after (generate_pdf demo_now demo_figures demo_generator Map.empty)
     ''output/reports/older.pdf'' = None"
    using a [THEN conjunct2, THEN conjunct2, THEN spec, THEN mp, OF conjI, OF q1 q2] by simp
  have d: "files_after (generate_word demo_now demo_figures demo_generator Map.empty)
     ''output/reports/older.pdf'' = None"
    using b [THEN conjunct2, THEN conjunct2, THEN spec, THEN mp, OF conjI, OF q1' q2] by simp
  show ?thesis
    using demo_ready demo_pdf_outcome demo_word_outcome a [THEN conjunct1]
      a [THEN conjunct2, THEN conjunct1] b [THEN conjunct2, THEN conjunct1] q1 q2 c d
    by (intro conjI)
qed

end
